theory Spec2Isabelle
  imports Main "HOL-Library.Multiset" "HOL-Library.AList"
begin

section \<open>The PostgREST client of client.go\<close>

text \<open>
  A shallow embedding of \<^verbatim>\<open>client.go\<close>: the \<^verbatim>\<open>Client\<close> struct, its two constructors,
  the header setters, \<^verbatim>\<open>Ping\<close>, \<^verbatim>\<open>Rpc\<close> and the \<^verbatim>\<open>transport\<close> round tripper.

  The packages the file imports (\<^verbatim>\<open>net/url\<close>, \<^verbatim>\<open>path\<close>, \<^verbatim>\<open>encoding/json\<close> by way of
  sonic, \<^verbatim>\<open>net/http\<close>'s default transport and \<^verbatim>\<open>fasthttp\<close>'s client) are not part of
  the program. What they compute is a field of the environment record \<open>env\<close>, so every
  theorem holds for every behaviour of those packages unless it says otherwise.

  A nil pointer dereference is the result \<open>Panics\<close>. \<^verbatim>\<open>Ping\<close> and \<^verbatim>\<open>Rpc\<close> return the
  client as they leave it, their Go result, and the list of requests they handed to an
  engine.
\<close>

subsection \<open>Errors and panics\<close>

text \<open>
  An error value is known by the package that made it and its message.
  \<open>Do_Error op url err\<close> is the \<^verbatim>\<open>&url.Error{Op: op, URL: url, Err: err}\<close> in which
  \<^verbatim>\<open>http.Client.Do\<close> wraps the error of a round trip.
\<close>

datatype error =
    errors_New string
  | url_Error string
  | json_Error string
  | net_Error string
  | io_Error string
  | Do_Error string string error

datatype 'a exec = Panics | Returns 'a

subsection \<open>net/url\<close>

text \<open>The fields of \<^verbatim>\<open>url.URL\<close>; \<open>URL_of_Path p\<close> is the literal \<^verbatim>\<open>&url.URL{Path: p}\<close>.\<close>

record URL =
  Scheme :: string
  Opaque :: string
  Host :: string
  Path :: string
  RawQuery :: string
  Fragment :: string

definition URL_of_Path :: "string \<Rightarrow> URL" where
  "URL_of_Path p =
     \<lparr>Scheme = [], Opaque = [], Host = [], Path = p, RawQuery = [], Fragment = []\<rparr>"

subsection \<open>http.Header\<close>

text \<open>
  \<^verbatim>\<open>http.Header\<close> is a \<^verbatim>\<open>map[string][]string\<close>: here an association list, read with
  \<open>map_of\<close> and written with \<open>AList.update\<close>. \<^verbatim>\<open>Set\<close> and \<^verbatim>\<open>Add\<close> first bring the key
  into canonical form (\<^verbatim>\<open>textproto.CanonicalMIMEHeaderKey\<close>): a key holding a byte
  that is no token character is left as it is; otherwise the first letter and every
  letter after a hyphen become upper case and the others lower case.
\<close>

type_synonym Header = "(string \<times> string list) list"

definition validHeaderFieldByte :: "char \<Rightarrow> bool" where
  "validHeaderFieldByte c =
     (let n = (of_char c :: nat) in
        (48 \<le> n \<and> n \<le> 57) \<or> (65 \<le> n \<and> n \<le> 90) \<or> (97 \<le> n \<and> n \<le> 122) \<or>
        n \<in> set [33, 35, 36, 37, 38, 39, 42, 43, 45, 46, 94, 95, 96, 124, 126])"

definition canonicalByte :: "bool \<Rightarrow> char \<Rightarrow> char" where
  "canonicalByte upper c =
     (let n = (of_char c :: nat) in
        if upper \<and> 97 \<le> n \<and> n \<le> 122 then char_of (n - 32)
        else if \<not> upper \<and> 65 \<le> n \<and> n \<le> 90 then char_of (n + 32)
        else c)"

fun canonicalBytes :: "bool \<Rightarrow> string \<Rightarrow> string" where
  "canonicalBytes upper [] = []"
| "canonicalBytes upper (c # cs) =
     canonicalByte upper c # canonicalBytes (canonicalByte upper c = CHR ''-'') cs"

definition CanonicalMIMEHeaderKey :: "string \<Rightarrow> string" where
  "CanonicalMIMEHeaderKey s =
     (if list_all validHeaderFieldByte s then canonicalBytes True s else s)"

definition Header_Values :: "Header \<Rightarrow> string \<Rightarrow> string list" where
  "Header_Values h k = (case map_of h k of None \<Rightarrow> [] | Some vs \<Rightarrow> vs)"

definition Header_Set :: "string \<Rightarrow> string \<Rightarrow> Header \<Rightarrow> Header" where
  "Header_Set key val h = AList.update (CanonicalMIMEHeaderKey key) [val] h"

definition Header_Add :: "string \<Rightarrow> string \<Rightarrow> Header \<Rightarrow> Header" where
  "Header_Add key val h =
     (let k = CanonicalMIMEHeaderKey key in AList.update k (Header_Values h k @ [val]) h)"

text \<open>The header lines a header map stands for, one per name and value.\<close>

definition Header_entries :: "Header \<Rightarrow> (string \<times> string) list" where
  "Header_entries h = concat (map (\<lambda>(k, vs). map (Pair k) vs) h)"

subsection \<open>net/http requests and responses\<close>

record http_Request =
  req_Method :: string
  req_URL :: URL
  req_Header :: Header
  req_Body :: string

text \<open>
  A response body is an \<^verbatim>\<open>io.ReadCloser\<close>: what \<^verbatim>\<open>io.ReadAll\<close> returns on it and what
  \<^verbatim>\<open>Close\<close> returns.
\<close>

record http_Body =
  ReadAll :: "error + string"
  Close :: "error option"

record http_Response =
  Status :: string
  StatusCode :: int
  Body :: http_Body

subsection \<open>fasthttp requests, responses and clients\<close>

text \<open>
  A \<^verbatim>\<open>fasthttp.Request\<close> keeps its header as a list of lines; \<^verbatim>\<open>Header.Add\<close> appends
  one. \<open>fasthttp_AcquireRequest\<close> is the empty request the pool hands out.
\<close>

record fasthttp_Request =
  freq_Method :: string
  freq_RequestURI :: string
  freq_Header :: "(string \<times> string) list"
  freq_Body :: string

record fasthttp_Response =
  fresp_StatusCode :: int
  fresp_Body :: string

record fasthttp_Client =
  MaxConnsPerHost :: int

definition fasthttp_AcquireRequest :: fasthttp_Request where
  "fasthttp_AcquireRequest =
     \<lparr>freq_Method = [], freq_RequestURI = [], freq_Header = [], freq_Body = []\<rparr>"

subsection \<open>The environment\<close>

text \<open>
  \<open>fasthttp_Do\<close> is \<^verbatim>\<open>(*fasthttp.Client).Do\<close> when the deadline is \<open>None\<close> and
  \<^verbatim>\<open>DoDeadline\<close> with a deadline that many seconds from now otherwise.
  \<open>DefaultTransport\<close> is \<^verbatim>\<open>http.DefaultTransport.RoundTrip\<close>, and \<open>Parent_RoundTrip\<close>
  the \<^verbatim>\<open>RoundTrip\<close> of an \<^verbatim>\<open>http.RoundTripper\<close> injected as the parent of a transport.
\<close>

datatype round_tripper = RoundTripper nat

record 'b env =
  url_Parse :: "string \<Rightarrow> error + URL"
  path_Join :: "string list \<Rightarrow> string"
  ResolveReference :: "URL \<Rightarrow> URL \<Rightarrow> URL"
  URL_String :: "URL \<Rightarrow> string"
  json_Marshal :: "'b \<Rightarrow> error + string"
  fasthttp_Do :: "fasthttp_Client \<Rightarrow> fasthttp_Request \<Rightarrow> nat option
                    \<Rightarrow> error + fasthttp_Response"
  DefaultTransport :: "http_Request \<Rightarrow> error + http_Response"
  Parent_RoundTrip :: "round_tripper \<Rightarrow> http_Request \<Rightarrow> error + http_Response"

subsection \<open>transport and Client\<close>

text \<open>
  \<open>Parent\<close> is an \<^verbatim>\<open>http.RoundTripper\<close> or nil. The \<^verbatim>\<open>session\<close> is an \<^verbatim>\<open>http.Client\<close>
  value: \<open>own_Transport\<close> says that its \<^verbatim>\<open>Transport\<close> field points at the client's
  transport (the same pointer \<^verbatim>\<open>&t\<close> as the \<^verbatim>\<open>Transport\<close> field of the client) and not
  nil, and \<open>Timeout\<close> is its \<^verbatim>\<open>Timeout\<close> field in seconds, where zero means no timeout.
\<close>

record transport =
  header :: Header
  baseURL :: URL
  Parent :: "round_tripper option"

record http_Client =
  own_Transport :: bool
  Timeout :: nat

record Client =
  ClientError :: "error option"
  session :: http_Client
  Transport :: "transport option"
  useFastHTTP :: bool
  fastHTTPClient :: "fasthttp_Client option"

definition version :: string where
  "version = ''v0.1.1''"

text \<open>The zero value \<^verbatim>\<open>http.Client{}\<close>.\<close>

definition http_Client_zero :: http_Client where
  "http_Client_zero = \<lparr>own_Transport = False, Timeout = 0\<rparr>"

text \<open>
  The five \<^verbatim>\<open>Set\<close> calls of both constructors, then the loop over the caller's
  \<^verbatim>\<open>headers\<close> map (an association list in the order the loop visits it).
\<close>

definition required_headers :: "string \<Rightarrow> Header \<Rightarrow> Header" where
  "required_headers schema h =
     Header_Set ''X-Client-Info'' (''postgrest-go/'' @ version)
       (Header_Set ''Content-Profile'' schema
         (Header_Set ''Accept-Profile'' schema
           (Header_Set ''Content-Type'' ''application/json''
             (Header_Set ''Accept'' ''application/json'' h))))"

definition optional_headers :: "(string \<times> string) list \<Rightarrow> Header \<Rightarrow> Header" where
  "optional_headers headers h = fold (\<lambda>(key, val) h. Header_Set key val h) headers h"

definition NewClient :: "'b env \<Rightarrow> string \<Rightarrow> string \<Rightarrow> (string \<times> string) list \<Rightarrow> Client" where
  "NewClient env rawURL schema headers =
     (case url_Parse env rawURL of
        Inl err \<Rightarrow>
          \<lparr>ClientError = Some err, session = http_Client_zero, Transport = None,
           useFastHTTP = False, fastHTTPClient = None\<rparr>
      | Inr base \<Rightarrow>
          (let t = \<lparr>header = [], baseURL = base, Parent = None\<rparr>;
               c = \<lparr>ClientError = None,
                    session = \<lparr>own_Transport = True, Timeout = 0\<rparr>,
                    Transport = Some t, useFastHTTP = False, fastHTTPClient = None\<rparr>;
               schema = (if schema = [] then ''public'' else schema)
           in c\<lparr>Transport :=
                  Some (t\<lparr>header := optional_headers headers
                                       (required_headers schema (header t))\<rparr>)\<rparr>))"

definition NewClientFast :: "'b env \<Rightarrow> string \<Rightarrow> string \<Rightarrow> (string \<times> string) list \<Rightarrow> Client" where
  "NewClientFast env rawURL schema headers =
     (case url_Parse env rawURL of
        Inl err \<Rightarrow>
          \<lparr>ClientError = Some err, session = http_Client_zero, Transport = None,
           useFastHTTP = False, fastHTTPClient = None\<rparr>
      | Inr base \<Rightarrow>
          (let t = \<lparr>header = [], baseURL = base, Parent = None\<rparr>;
               c = \<lparr>ClientError = None, session = http_Client_zero,
                    Transport = Some t, useFastHTTP = True,
                    fastHTTPClient = Some \<lparr>MaxConnsPerHost = 30\<rparr>\<rparr>;
               schema = (if schema = [] then ''public'' else schema)
           in c\<lparr>Transport :=
                  Some (t\<lparr>header := optional_headers headers
                                       (required_headers schema (header t))\<rparr>)\<rparr>))"

text \<open>\<^verbatim>\<open>SetFastHTTPMaxConns\<close>: a Go \<^verbatim>\<open>int\<close> is far from overflow here, so \<open>n\<close> is an \<open>int\<close>.\<close>

definition SetFastHTTPMaxConns :: "Client \<Rightarrow> int \<Rightarrow> Client" where
  "SetFastHTTPMaxConns c n =
     (let n = (if n \<le> 0 then 30 else n);
          fc = (case fastHTTPClient c of
                  None \<Rightarrow> \<lparr>MaxConnsPerHost = 0\<rparr>
                | Some fc \<Rightarrow> fc)
      in c\<lparr>fastHTTPClient := Some (fc\<lparr>MaxConnsPerHost := n\<rparr>)\<rparr>)"

text \<open>
  The setters write through \<^verbatim>\<open>c.Transport.header\<close>, which dereferences the
  \<^verbatim>\<open>Transport\<close> pointer: on a nil pointer they panic.
\<close>

definition SetApiKey :: "Client \<Rightarrow> string \<Rightarrow> Client exec" where
  "SetApiKey c apiKey =
     (case Transport c of
        None \<Rightarrow> Panics
      | Some t \<Rightarrow> Returns (c\<lparr>Transport := Some (t\<lparr>header := Header_Set ''apikey'' apiKey (header t)\<rparr>)\<rparr>))"

definition SetAuthToken :: "Client \<Rightarrow> string \<Rightarrow> Client exec" where
  "SetAuthToken c authToken =
     (case Transport c of
        None \<Rightarrow> Panics
      | Some t \<Rightarrow>
          Returns (c\<lparr>Transport :=
                       Some (t\<lparr>header := Header_Set ''Authorization'' (''Bearer '' @ authToken)
                                            (header t)\<rparr>)\<rparr>))"

definition ChangeSchema :: "Client \<Rightarrow> string \<Rightarrow> Client exec" where
  "ChangeSchema c schema =
     (case Transport c of
        None \<Rightarrow> Panics
      | Some t \<Rightarrow>
          Returns (c\<lparr>Transport :=
                       Some (t\<lparr>header := Header_Set ''Content-Profile'' schema
                                            (Header_Set ''Accept-Profile'' schema (header t))\<rparr>)\<rparr>))"

subsection \<open>Sending a request\<close>

text \<open>
  The loop \<^verbatim>\<open>for headerName, values := range header { for _, val := range values {
  req.Header.Add(headerName, val) } }\<close> occurs three times: over an \<^verbatim>\<open>http.Header\<close>
  in \<^verbatim>\<open>RoundTrip\<close> and over a fasthttp header in \<^verbatim>\<open>Ping\<close> and \<^verbatim>\<open>Rpc\<close>.
\<close>

definition add_default_headers :: "Header \<Rightarrow> Header \<Rightarrow> Header" where
  "add_default_headers defaults h =
     fold (\<lambda>(headerName, vals) h. fold (\<lambda>val h. Header_Add headerName val h) vals h)
       defaults h"

definition fasthttp_add_default_headers ::
    "Header \<Rightarrow> (string \<times> string) list \<Rightarrow> (string \<times> string) list" where
  "fasthttp_add_default_headers defaults h =
     fold (\<lambda>(headerName, vals) h. fold (\<lambda>val h. h @ [(headerName, val)]) vals h)
       defaults h"

text \<open>
  \<^verbatim>\<open>RoundTrip\<close> changes the request it is given and passes it on; the result is the
  request as passed on and the answer.
\<close>

definition RoundTrip ::
    "'b env \<Rightarrow> transport \<Rightarrow> http_Request \<Rightarrow> http_Request \<times> (error + http_Response)" where
  "RoundTrip env t req =
     (let req = req\<lparr>req_Header := add_default_headers (header t) (req_Header req)\<rparr>;
          req = req\<lparr>req_URL := ResolveReference env (baseURL t) (req_URL req)\<rparr>
      in case Parent t of
           Some parent \<Rightarrow> (req, Parent_RoundTrip env parent req)
         | None \<Rightarrow> (req, DefaultTransport env req))"

text \<open>
  \<^verbatim>\<open>http.NewRequest\<close> parses the URL with \<^verbatim>\<open>url.Parse\<close>, takes an empty port off
  the host (\<^verbatim>\<open>u.Host = removeEmptyPort(u.Host)\<close>: a host that has a port and ends in a
  colon loses that colon) and returns a request with an empty header (the methods used
  here, GET and POST, are valid). \<open>NewRequest_URL\<close> is the URL of that request.
\<close>

definition LastIndex :: "string \<Rightarrow> char \<Rightarrow> int" where
  "LastIndex s c =
     (if c \<in> set s then int (length s) - 1 - int (length (takeWhile (\<lambda>x. x \<noteq> c) (rev s)))
      else - 1)"

definition hasPort :: "string \<Rightarrow> bool" where
  "hasPort s = (LastIndex s CHR '':'' > LastIndex s CHR '']'')"

definition removeEmptyPort :: "string \<Rightarrow> string" where
  "removeEmptyPort host =
     (if hasPort host then (if host \<noteq> [] \<and> last host = CHR '':'' then butlast host else host)
      else host)"

definition NewRequest_URL :: "'b env \<Rightarrow> string \<Rightarrow> error + URL" where
  "NewRequest_URL env urlStr =
     (case url_Parse env urlStr of
        Inl err \<Rightarrow> Inl err
      | Inr u \<Rightarrow> Inr (u\<lparr>Host := removeEmptyPort (Host u)\<rparr>))"

definition http_NewRequest :: "'b env \<Rightarrow> string \<Rightarrow> string \<Rightarrow> string \<Rightarrow> error + http_Request" where
  "http_NewRequest env method urlStr body =
     (case NewRequest_URL env urlStr of
        Inl err \<Rightarrow> Inl err
      | Inr u \<Rightarrow> Inr \<lparr>req_Method = method, req_URL = u, req_Header = [], req_Body = body\<rparr>)"

text \<open>
  \<^verbatim>\<open>c.session.Do(req)\<close> is one round trip through the session's transport: the
  client's own transport, or the default one when the field is nil. An error of the round
  trip comes back wrapped in a \<^verbatim>\<open>*url.Error\<close> whose \<^verbatim>\<open>Op\<close> is the method with its
  first letter only in upper case (\<^verbatim>\<open>urlErrorOp\<close>) and whose \<^verbatim>\<open>URL\<close> is the URL of the
  request, which the round trip has rewritten in place. A response comes back as it is.
  Redirects, which \<^verbatim>\<open>Do\<close> follows with a round trip each, are left to the engine.
\<close>

definition toLower :: "char \<Rightarrow> char" where
  "toLower c =
     (let n = (of_char c :: nat) in if 65 \<le> n \<and> n \<le> 90 then char_of (n + 32) else c)"

definition urlErrorOp :: "string \<Rightarrow> string" where
  "urlErrorOp method =
     (case method of
        [] \<Rightarrow> ''Get''
      | c # cs \<Rightarrow>
          if list_all (\<lambda>x. 32 \<le> (of_char x :: nat) \<and> (of_char x :: nat) \<le> 126) method
          then c # map toLower cs
          else method)"

definition session_Do ::
    "'b env \<Rightarrow> http_Client \<Rightarrow> transport \<Rightarrow> http_Request
       \<Rightarrow> http_Request \<times> (error + http_Response)" where
  "session_Do env s t req =
     (case (if own_Transport s then RoundTrip env t req else (req, DefaultTransport env req)) of
        (sent, Inl err) \<Rightarrow>
          (sent, Inl (Do_Error (urlErrorOp (req_Method req)) (URL_String env (req_URL sent)) err))
      | (sent, Inr resp) \<Rightarrow> (sent, Inr resp))"

text \<open>
  A request handed to an engine: through fasthttp with the deadline given (if any), or
  through net/http under the session's \<open>Timeout\<close>.
\<close>

datatype call =
    FastHTTP fasthttp_Client fasthttp_Request "nat option"
  | NetHTTP http_Request nat

subsection \<open>Ping\<close>

definition Ping :: "'b env \<Rightarrow> Client \<Rightarrow> (Client \<times> bool \<times> call list) exec" where
  "Ping env c =
     (case Transport c of
        None \<Rightarrow> Panics
      | Some t \<Rightarrow>
          (let rel = URL_of_Path (path_Join env [Path (baseURL t), []]);
               full = ResolveReference env (baseURL t) rel
           in if useFastHTTP c then
                (case fastHTTPClient c of
                   None \<Rightarrow> Panics
                 | Some fc \<Rightarrow>
                     (let req = fasthttp_AcquireRequest;
                          req = req\<lparr>freq_Method := ''GET''\<rparr>;
                          req = req\<lparr>freq_RequestURI := URL_String env full\<rparr>;
                          req = req\<lparr>freq_Header :=
                                      fasthttp_add_default_headers (header t) (freq_Header req)\<rparr>;
                          deadline = Some 5
                      in case fasthttp_Do env fc req deadline of
                           Inl err \<Rightarrow>
                             Returns (c\<lparr>ClientError := Some err\<rparr>, False,
                                      [FastHTTP fc req deadline])
                         | Inr resp \<Rightarrow>
                             if fresp_StatusCode resp \<noteq> 200 then
                               Returns (c\<lparr>ClientError := Some (errors_New ''ping failed'')\<rparr>,
                                        False, [FastHTTP fc req deadline])
                             else Returns (c, True, [FastHTTP fc req deadline])))
              else
                (case http_NewRequest env ''GET'' (URL_String env full) [] of
                   Inl err \<Rightarrow> Returns (c\<lparr>ClientError := Some err\<rparr>, False, [])
                 | Inr req \<Rightarrow>
                     (case session_Do env (session c) t req of
                        (sent, Inl err) \<Rightarrow>
                          Returns (c\<lparr>ClientError := Some err\<rparr>, False,
                                   [NetHTTP sent (Timeout (session c))])
                      | (sent, Inr resp) \<Rightarrow>
                          if Status resp \<noteq> ''200 OK'' then
                            Returns (c\<lparr>ClientError := Some (errors_New ''ping failed'')\<rparr>,
                                     False, [NetHTTP sent (Timeout (session c))])
                          else Returns (c, True, [NetHTTP sent (Timeout (session c))])))))"

subsection \<open>Rpc\<close>

text \<open>
  \<open>rpcBody\<close> is the \<^verbatim>\<open>interface{}\<close> argument (\<open>None\<close> for nil) and \<open>byteBody\<close> the
  \<^verbatim>\<open>[]byte\<close> that is nil or the marshalled body; \<open>cnt\<close> is the argument \<^verbatim>\<open>count\<close>.
\<close>

definition count_preferred :: "string \<Rightarrow> bool" where
  "count_preferred cnt =
     (cnt \<noteq> [] \<and> (cnt = ''exact'' \<or> cnt = ''planned'' \<or> cnt = ''estimated''))"

definition Rpc ::
    "'b env \<Rightarrow> Client \<Rightarrow> string \<Rightarrow> string \<Rightarrow> 'b option \<Rightarrow> (Client \<times> string \<times> call list) exec" where
  "Rpc env c name cnt rpcBody =
     (case (case rpcBody of
              None \<Rightarrow> Inr None
            | Some b \<Rightarrow> (case json_Marshal env b of
                           Inl err \<Rightarrow> Inl err
                         | Inr jsonBody \<Rightarrow> Inr (Some jsonBody))) of
        Inl err \<Rightarrow> Returns (c\<lparr>ClientError := Some err\<rparr>, [], [])
      | Inr byteBody \<Rightarrow>
          (case Transport c of
             None \<Rightarrow> Panics
           | Some t \<Rightarrow>
               (let rel = URL_of_Path (path_Join env [Path (baseURL t), ''rpc'', name]);
                    full = ResolveReference env (baseURL t) rel
                in if useFastHTTP c then
                     (case fastHTTPClient c of
                        None \<Rightarrow> Panics
                      | Some fc \<Rightarrow>
                          (let req = fasthttp_AcquireRequest;
                               req = req\<lparr>freq_Method := ''POST''\<rparr>;
                               req = req\<lparr>freq_RequestURI := URL_String env full\<rparr>;
                               req = (case byteBody of
                                        None \<Rightarrow> req
                                      | Some bs \<Rightarrow> req\<lparr>freq_Body := bs\<rparr>);
                               req = req\<lparr>freq_Header :=
                                           fasthttp_add_default_headers (header t)
                                             (freq_Header req)\<rparr>;
                               req = (if count_preferred cnt then
                                        req\<lparr>freq_Header :=
                                              freq_Header req @ [(''Prefer'', ''count='' @ cnt)]\<rparr>
                                      else req)
                           in case fasthttp_Do env fc req None of
                                Inl err \<Rightarrow>
                                  Returns (c\<lparr>ClientError := Some err\<rparr>, [],
                                           [FastHTTP fc req None])
                              | Inr resp \<Rightarrow>
                                  Returns (c, fresp_Body resp, [FastHTTP fc req None])))
                   else
                     (let readerBody = (case byteBody of None \<Rightarrow> [] | Some bs \<Rightarrow> bs)
                      in case http_NewRequest env ''POST'' (URL_String env full) readerBody of
                           Inl err \<Rightarrow> Returns (c\<lparr>ClientError := Some err\<rparr>, [], [])
                         | Inr req \<Rightarrow>
                             (let req = (if count_preferred cnt then
                                           req\<lparr>req_Header :=
                                                 Header_Add ''Prefer'' (''count='' @ cnt)
                                                   (req_Header req)\<rparr>
                                         else req)
                              in case session_Do env (session c) t req of
                                   (sent, Inl err) \<Rightarrow>
                                     Returns (c\<lparr>ClientError := Some err\<rparr>, [],
                                              [NetHTTP sent (Timeout (session c))])
                                 | (sent, Inr resp) \<Rightarrow>
                                     (case ReadAll (Body resp) of
                                        Inl err \<Rightarrow>
                                          Returns (c\<lparr>ClientError := Some err\<rparr>, [],
                                                   [NetHTTP sent (Timeout (session c))])
                                      | Inr body \<Rightarrow>
                                          (case Close (Body resp) of
                                             Some err \<Rightarrow>
                                               Returns (c\<lparr>ClientError := Some err\<rparr>, [],
                                                        [NetHTTP sent (Timeout (session c))])
                                           | None \<Rightarrow>
                                               Returns (c, body,
                                                        [NetHTTP sent
                                                           (Timeout (session c))]))))))))"

subsection \<open>A test environment\<close>

text \<open>
  Concrete environments for the examples below, in the manner of the repository's test
  programs (a PostgREST at \<^verbatim>\<open>http://localhost:3000\<close>). The URL functions cover the
  URLs of the examples only: \<open>test_Parse\<close> rejects a string that starts with a colon, as
  \<^verbatim>\<open>url.Parse\<close> does (\<^verbatim>\<open>missing protocol scheme\<close>), splits an \<^verbatim>\<open>http://\<close> URL into
  host and path, and takes anything else as a path. A \<open>go_value\<close> is an RPC body:
  a string, or a channel, which \<^verbatim>\<open>json.Marshal\<close> refuses. The two engines answer every
  request with the answers given.
\<close>

datatype go_value = Go_string string | Go_chan

definition test_Parse :: "string \<Rightarrow> error + URL" where
  "test_Parse s =
     (if take 1 s = '':'' then Inl (url_Error ''missing protocol scheme'')
      else if take 7 s = ''http://'' then
        Inr \<lparr>Scheme = ''http'', Opaque = [],
             Host = takeWhile (\<lambda>c. c \<noteq> CHR ''/'') (drop 7 s),
             Path = dropWhile (\<lambda>c. c \<noteq> CHR ''/'') (drop 7 s),
             RawQuery = [], Fragment = []\<rparr>
      else Inr (URL_of_Path s))"

fun test_Join :: "string list \<Rightarrow> string" where
  "test_Join [] = []"
| "test_Join (e # es) =
     (if e = [] then test_Join es
      else if test_Join es = [] then e
      else e @ ''/'' @ test_Join es)"

definition test_ResolveReference :: "URL \<Rightarrow> URL \<Rightarrow> URL" where
  "test_ResolveReference u ref =
     (if Scheme ref \<noteq> [] then ref
      else ref\<lparr>Scheme := Scheme u, Host := Host u,
               Path := (if Path ref = [] then Path u
                        else if take 1 (Path ref) = ''/'' then Path ref
                        else ''/'' @ Path ref)\<rparr>)"

definition test_String :: "URL \<Rightarrow> string" where
  "test_String u = (if Scheme u = [] then [] else Scheme u @ ''://'' @ Host u) @ Path u"

definition test_Marshal :: "go_value \<Rightarrow> error + string" where
  "test_Marshal v =
     (case v of
        Go_string s \<Rightarrow> Inr ([CHR 0x22] @ s @ [CHR 0x22])
      | Go_chan \<Rightarrow> Inl (json_Error ''unsupported type''))"

definition test_env ::
    "(error + fasthttp_Response) \<Rightarrow> (error + http_Response) \<Rightarrow> go_value env" where
  "test_env fast_answer http_answer =
     \<lparr>url_Parse = test_Parse, path_Join = test_Join,
      ResolveReference = test_ResolveReference, URL_String = test_String,
      json_Marshal = test_Marshal,
      fasthttp_Do = (\<lambda>fc req deadline. fast_answer),
      DefaultTransport = (\<lambda>req. http_answer),
      Parent_RoundTrip = (\<lambda>parent req. http_answer)\<rparr>"

definition http_answer_ok :: "string \<Rightarrow> error + http_Response" where
  "http_answer_ok body =
     Inr \<lparr>Status = ''200 OK'', StatusCode = 200,
          Body = \<lparr>ReadAll = Inr body, Close = None\<rparr>\<rparr>"

definition fast_answer_ok :: "string \<Rightarrow> error + fasthttp_Response" where
  "fast_answer_ok body = Inr \<lparr>fresp_StatusCode = 200, fresp_Body = body\<rparr>"

text \<open>A server that answers 200 OK with the body \<^verbatim>\<open>12\<close> on both engines.\<close>

definition env_ok :: "go_value env" where
  "env_ok = test_env (fast_answer_ok ''12'') (http_answer_ok ''12'')"

subsection \<open>Observers\<close>

text \<open>
  The client's default header set: the header map of its transport (empty for a client
  without a transport).
\<close>

definition HeaderSet :: "Client \<Rightarrow> Header" where
  "HeaderSet c = (case Transport c of None \<Rightarrow> [] | Some t \<Rightarrow> header t)"

text \<open>
  The base URL of the examples, and a server whose status line has no reason phrase
  (\<^verbatim>\<open>HTTP/1.1 200\<close> and a space), for which net/http reports the status code 200 and
  the status text \<^verbatim>\<open>200\<close> followed by a space.
\<close>

definition localhost :: URL where
  "localhost = \<lparr>Scheme = ''http'', Opaque = [], Host = ''localhost:3000'', Path = [],
          RawQuery = [], Fragment = []\<rparr>"

definition env_no_reason :: "go_value env" where
  "env_no_reason =
     test_env (fast_answer_ok [])
       (Inr \<lparr>Status = ''200 '', StatusCode = 200, Body = \<lparr>ReadAll = Inr [], Close = None\<rparr>\<rparr>)"

subsection \<open>Sequences of setter calls\<close>

text \<open>
  A call of one of the three typed setters, and a sequence of such calls on a client,
  which stops at the first panic.
\<close>

datatype setter = Call_SetApiKey string | Call_SetAuthToken string | Call_ChangeSchema string

fun call_setter :: "Client \<Rightarrow> setter \<Rightarrow> Client exec" where
  "call_setter c (Call_SetApiKey apiKey) = SetApiKey c apiKey"
| "call_setter c (Call_SetAuthToken authToken) = SetAuthToken c authToken"
| "call_setter c (Call_ChangeSchema schema) = ChangeSchema c schema"

fun call_setters :: "Client \<Rightarrow> setter list \<Rightarrow> Client exec" where
  "call_setters c [] = Returns c"
| "call_setters c (s # ss) =
     (case call_setter c s of
        Panics \<Rightarrow> Panics
      | Returns c' \<Rightarrow> call_setters c' ss)"

text \<open>
  The specification's reading of the setters: the header name (in canonical form) and the
  value each call is to leave, and the value last written under a name by a sequence of
  calls.
\<close>

fun written :: "setter \<Rightarrow> (string \<times> string) list" where
  "written (Call_SetApiKey apiKey) = [(''Apikey'', apiKey)]"
| "written (Call_SetAuthToken authToken) = [(''Authorization'', ''Bearer '' @ authToken)]"
| "written (Call_ChangeSchema schema) = [(''Accept-Profile'', schema), (''Content-Profile'', schema)]"

definition last_written :: "setter list \<Rightarrow> string \<Rightarrow> string option" where
  "last_written ss name = map_of (rev (concat (map written ss))) name"

subsection \<open>Sequences of operations\<close>

text \<open>
  A call of one of the client's operations, and a sequence of such calls on a client,
  which stops at the first panic and collects the requests handed to an engine.
  \<open>through_fasthttp\<close> tells the engine of such a request.
\<close>

datatype 'b op =
    Op_SetFastHTTPMaxConns int
  | Op_Set setter
  | Op_Ping
  | Op_Rpc string string "'b option"

fun call_op :: "'b env \<Rightarrow> Client \<Rightarrow> 'b op \<Rightarrow> (Client \<times> call list) exec" where
  "call_op env c (Op_SetFastHTTPMaxConns n) = Returns (SetFastHTTPMaxConns c n, [])"
| "call_op env c (Op_Set s) =
     (case call_setter c s of
        Panics \<Rightarrow> Panics
      | Returns c' \<Rightarrow> Returns (c', []))"
| "call_op env c Op_Ping =
     (case Ping env c of
        Panics \<Rightarrow> Panics
      | Returns (c', ok, w) \<Rightarrow> Returns (c', w))"
| "call_op env c (Op_Rpc name cnt rpcBody) =
     (case Rpc env c name cnt rpcBody of
        Panics \<Rightarrow> Panics
      | Returns (c', result, w) \<Rightarrow> Returns (c', w))"

fun call_ops :: "'b env \<Rightarrow> Client \<Rightarrow> 'b op list \<Rightarrow> (Client \<times> call list) exec" where
  "call_ops env c [] = Returns (c, [])"
| "call_ops env c (x # xs) =
     (case call_op env c x of
        Panics \<Rightarrow> Panics
      | Returns (c1, w1) \<Rightarrow>
          (case call_ops env c1 xs of
             Panics \<Rightarrow> Panics
           | Returns (c2, w2) \<Rightarrow> Returns (c2, w1 @ w2)))"

fun through_fasthttp :: "call \<Rightarrow> bool" where
  "through_fasthttp (FastHTTP fc req deadline) = True"
| "through_fasthttp (NetHTTP req timeout) = False"

subsection \<open>Valid clients\<close>

text \<open>
  What the constructors establish and every operation keeps: the client has a transport,
  the keys of its header map are distinct and in canonical form (they were all written by
  \<^verbatim>\<open>Set\<close>), a fasthttp client exists when the fasthttp engine was chosen, and the
  session points at the transport otherwise.
\<close>

definition canonical_keys :: "Header \<Rightarrow> bool" where
  "canonical_keys h = list_all (\<lambda>(k, vs). CanonicalMIMEHeaderKey k = k) h"

definition valid_client :: "Client \<Rightarrow> bool" where
  "valid_client c =
     (case Transport c of
        None \<Rightarrow> False
      | Some t \<Rightarrow>
          canonical_keys (header t) \<and> distinct (map fst (header t)) \<and>
          (if useFastHTTP c then fastHTTPClient c \<noteq> None else own_Transport (session c)))"

subsection \<open>The parts of Rpc\<close>

text \<open>
  The steps of \<^verbatim>\<open>Rpc\<close> by name: the marshalled body (lines 203 to 211), the payload it
  makes, the URL \<^verbatim>\<open>full\<close> (lines 214 and 215), the \<^verbatim>\<open>Prefer\<close> line of a count, the
  request the fasthttp branch builds (lines 218 to 236) and the request the net/http
  branch hands to \<^verbatim>\<open>c.session.Do\<close> (lines 246 to 255), given the URL of the
  request that \<^verbatim>\<open>http.NewRequest\<close> made.
\<close>

definition byteBody_of :: "'b env \<Rightarrow> 'b option \<Rightarrow> error + string option" where
  "byteBody_of env rpcBody =
     (case rpcBody of
        None \<Rightarrow> Inr None
      | Some b \<Rightarrow> (case json_Marshal env b of
                     Inl err \<Rightarrow> Inl err
                   | Inr jsonBody \<Rightarrow> Inr (Some jsonBody)))"

definition payload :: "string option \<Rightarrow> string" where
  "payload byteBody = (case byteBody of None \<Rightarrow> [] | Some bs \<Rightarrow> bs)"

definition Rpc_full :: "'b env \<Rightarrow> transport \<Rightarrow> string \<Rightarrow> URL" where
  "Rpc_full env t name =
     ResolveReference env (baseURL t)
       (URL_of_Path (path_Join env [Path (baseURL t), ''rpc'', name]))"

definition Prefer_lines :: "string \<Rightarrow> (string \<times> string) list" where
  "Prefer_lines cnt = (if count_preferred cnt then [(''Prefer'', ''count='' @ cnt)] else [])"

definition Rpc_fasthttp_request ::
    "'b env \<Rightarrow> transport \<Rightarrow> string \<Rightarrow> string \<Rightarrow> string option \<Rightarrow> fasthttp_Request" where
  "Rpc_fasthttp_request env t name cnt byteBody =
     \<lparr>freq_Method = ''POST'', freq_RequestURI = URL_String env (Rpc_full env t name),
      freq_Header = fasthttp_add_default_headers (header t) [] @ Prefer_lines cnt,
      freq_Body = payload byteBody\<rparr>"

definition Rpc_http_request :: "URL \<Rightarrow> string \<Rightarrow> string option \<Rightarrow> http_Request" where
  "Rpc_http_request u cnt byteBody =
     \<lparr>req_Method = ''POST'', req_URL = u,
      req_Header = (if count_preferred cnt then Header_Add ''Prefer'' (''count='' @ cnt) [] else []),
      req_Body = payload byteBody\<rparr>"

subsection \<open>More test environments\<close>

text \<open>
  A server that refuses the connection, a server whose body breaks off, and a URL parser
  that accepts the base URL only; the transport \<open>t0\<close> of a fresh client for the base URL,
  and the request \<open>sent0\<close> that the net/http branch of \<^verbatim>\<open>Rpc\<close> passes on for the
  function \<^verbatim>\<open>add_them\<close> without a body.
\<close>

definition env_down :: "go_value env" where
  "env_down = test_env (Inl (net_Error ''connection refused'')) (Inl (net_Error ''connection refused''))"

definition env_short_body :: "go_value env" where
  "env_short_body =
     test_env (fast_answer_ok ''12'')
       (Inr \<lparr>Status = ''200 OK'', StatusCode = 200,
             Body = \<lparr>ReadAll = Inl (io_Error ''unexpected EOF''), Close = None\<rparr>\<rparr>)"

definition env_base_only :: "go_value env" where
  "env_base_only =
     env_ok\<lparr>url_Parse := (\<lambda>s. if s = ''http://localhost:3000'' then Inr localhost
                               else Inl (url_Error ''invalid URL''))\<rparr>"

definition t0 :: transport where
  "t0 = \<lparr>header = required_headers ''public'' [], baseURL = localhost, Parent = None\<rparr>"

definition sent0 :: "string \<Rightarrow> http_Request" where
  "sent0 cnt =
     \<lparr>req_Method = ''POST'', req_URL = localhost\<lparr>Path := ''/rpc/add_them''\<rparr>,
      req_Header = add_default_headers (required_headers ''public'' [])
                     (req_Header (Rpc_http_request localhost cnt None)),
      req_Body = []\<rparr>"

subsection \<open>A successful Rpc\<close>

text \<open>
  The specification's notion of a call of \<^verbatim>\<open>Rpc\<close> that succeeds: there is a transport
  (and a fasthttp client on that engine), and no step fails: not the marshalling, not the
  construction of the request, not the transport, not the reading and closing of the
  response body.
\<close>

definition Rpc_succeeds :: "'b env \<Rightarrow> Client \<Rightarrow> string \<Rightarrow> string \<Rightarrow> 'b option \<Rightarrow> bool" where
  "Rpc_succeeds env c name cnt rpcBody =
     (case byteBody_of env rpcBody of
        Inl err \<Rightarrow> False
      | Inr bb \<Rightarrow>
          (case Transport c of
             None \<Rightarrow> False
           | Some t \<Rightarrow>
               if useFastHTTP c then
                 (case fastHTTPClient c of
                    None \<Rightarrow> False
                  | Some fc \<Rightarrow>
                      (case fasthttp_Do env fc (Rpc_fasthttp_request env t name cnt bb) None of
                         Inl err \<Rightarrow> False
                       | Inr resp \<Rightarrow> True))
               else
                 (case NewRequest_URL env (URL_String env (Rpc_full env t name)) of
                    Inl err \<Rightarrow> False
                  | Inr u \<Rightarrow>
                      (case snd (session_Do env (session c) t (Rpc_http_request u cnt bb)) of
                         Inl err \<Rightarrow> False
                       | Inr resp \<Rightarrow>
                           (case ReadAll (Body resp) of
                              Inl err \<Rightarrow> False
                            | Inr body \<Rightarrow> Close (Body resp) = None)))))"

text \<open>
  A valid net/http client whose \<^verbatim>\<open>ClientError\<close> still holds the error of an earlier
  failed \<^verbatim>\<open>Ping\<close>.
\<close>

definition c_stale :: Client where
  "c_stale = \<lparr>ClientError = Some (errors_New ''ping failed''),
              session = \<lparr>own_Transport = True, Timeout = 0\<rparr>,
              Transport = Some t0, useFastHTTP = False, fastHTTPClient = None\<rparr>"

subsection \<open>What a request carries\<close>






section \<open>Properties\<close>

subsection \<open>Construction from a URL that does not parse\<close>

lemma NewClient_parse_error:
  "url_Parse env rawURL = Inl err \<Longrightarrow>
   NewClient env rawURL schema headers =
     \<lparr>ClientError = Some err, session = http_Client_zero, Transport = None,
      useFastHTTP = False, fastHTTPClient = None\<rparr>"
  by (simp add: NewClient_def)

lemma NewClientFast_parse_error:
  "url_Parse env rawURL = Inl err \<Longrightarrow>
   NewClientFast env rawURL schema headers =
     \<lparr>ClientError = Some err, session = http_Client_zero, Transport = None,
      useFastHTTP = False, fastHTTPClient = None\<rparr>"
  by (simp add: NewClientFast_def)

lemma Ping_nil_Transport: "Transport c = None \<Longrightarrow> Ping env c = Panics"
  by (simp add: Ping_def)

lemma test_Parse_colon: "test_Parse '':bad'' = Inl (url_Error ''missing protocol scheme'')"
  by (simp add: test_Parse_def)

text \<open>
  Claim C1, as the code has it. When \<^verbatim>\<open>url.Parse\<close> fails, \<^verbatim>\<open>NewClient\<close> and
  \<^verbatim>\<open>NewClientFast\<close> return a client whose \<^verbatim>\<open>ClientError\<close> is that error and whose
  \<^verbatim>\<open>Transport\<close> is nil. \<^verbatim>\<open>Ping\<close> on that client does not return false: its first
  statement reads \<^verbatim>\<open>c.Transport.baseURL\<close> through the nil pointer and panics.
\<close>

theorem failed_construction_Ping_panics:
  assumes "url_Parse env rawURL = Inl err"
  shows "ClientError (NewClient env rawURL schema headers) = Some err
       \<and> Transport (NewClient env rawURL schema headers) = None
       \<and> Ping env (NewClient env rawURL schema headers) = Panics
       \<and> ClientError (NewClientFast env rawURL schema headers) = Some err
       \<and> Transport (NewClientFast env rawURL schema headers) = None
       \<and> Ping env (NewClientFast env rawURL schema headers) = Panics"
  using assms
  by (simp add: NewClient_parse_error NewClientFast_parse_error Ping_nil_Transport)

theorem failed_construction_Ping_panics_witness:
  "url_Parse env_ok '':bad'' = Inl (url_Error ''missing protocol scheme'')
   \<and> ClientError (NewClient env_ok '':bad'' [] []) = Some (url_Error ''missing protocol scheme'')
   \<and> Transport (NewClient env_ok '':bad'' [] []) = None
   \<and> Ping env_ok (NewClient env_ok '':bad'' [] []) = Panics"
proof -
  have p: "url_Parse env_ok '':bad'' = Inl (url_Error ''missing protocol scheme'')"
    by (simp add: env_ok_def test_env_def test_Parse_colon)
  show ?thesis
    using p failed_construction_Ping_panics [OF p, of "[]" "[]"] by simp
qed

text \<open>
  The claim as the specification words it (\<^verbatim>\<open>Ping\<close> does not crash and returns false)
  fails at \<^verbatim>\<open>NewClient(":bad", "", nil)\<close>: the call panics.
\<close>

theorem Ping_after_failed_construction_counterexample:
  "url_Parse env_ok '':bad'' = Inl (url_Error ''missing protocol scheme'')
   \<and> Ping env_ok (NewClient env_ok '':bad'' [] []) = Panics
   \<and> Ping env_ok (NewClientFast env_ok '':bad'' [] []) = Panics"
proof -
  have p: "url_Parse env_ok '':bad'' = Inl (url_Error ''missing protocol scheme'')"
    by (simp add: env_ok_def test_env_def test_Parse_colon)
  show ?thesis
    using p
    by (simp add: NewClient_parse_error NewClientFast_parse_error Ping_nil_Transport)
qed

subsection \<open>The baseline headers\<close>

lemma canonical_Accept: "CanonicalMIMEHeaderKey ''Accept'' = ''Accept''"
  by code_simp
lemma canonical_Content_Type: "CanonicalMIMEHeaderKey ''Content-Type'' = ''Content-Type''"
  by code_simp
lemma canonical_Accept_Profile: "CanonicalMIMEHeaderKey ''Accept-Profile'' = ''Accept-Profile''"
  by code_simp
lemma canonical_Content_Profile: "CanonicalMIMEHeaderKey ''Content-Profile'' = ''Content-Profile''"
  by code_simp
lemma canonical_X_Client_Info: "CanonicalMIMEHeaderKey ''X-Client-Info'' = ''X-Client-Info''"
  by code_simp

lemmas canonical_baseline = canonical_Accept canonical_Content_Type canonical_Accept_Profile
  canonical_Content_Profile canonical_X_Client_Info

lemma map_of_Header_Set:
  "map_of (Header_Set key val h) = (map_of h)(CanonicalMIMEHeaderKey key \<mapsto> [val])"
  by (simp add: Header_Set_def update_conv')


lemma required_headers_Nil:
  "required_headers s [] =
     [(''Accept'', [''application/json'']), (''Content-Type'', [''application/json'']),
      (''Accept-Profile'', [s]), (''Content-Profile'', [s]),
      (''X-Client-Info'', [''postgrest-go/v0.1.1''])]"
  by (simp add: required_headers_def Header_Set_def canonical_baseline version_def)



lemma HeaderSet_NewClient:
  "url_Parse env rawURL = Inr u \<Longrightarrow>
   HeaderSet (NewClient env rawURL schema headers) =
     optional_headers headers (required_headers (if schema = [] then ''public'' else schema) [])"
  by (simp add: NewClient_def HeaderSet_def Let_def)


lemma Transport_NewClient:
  "url_Parse env rawURL = Inr u \<Longrightarrow> Transport (NewClient env rawURL schema headers) \<noteq> None"
  by (simp add: NewClient_def Let_def)




lemma parse_localhost:
  "url_Parse env_ok ''http://localhost:3000'' =
     Inr \<lparr>Scheme = ''http'', Opaque = [], Host = ''localhost:3000'', Path = [],
          RawQuery = [], Fragment = []\<rparr>"
  by (simp add: env_ok_def test_env_def test_Parse_def)



subsection \<open>Ping on a fresh client\<close>

lemma NewClient_localhost:
  "url_Parse env ''http://localhost:3000'' = Inr localhost \<Longrightarrow>
   NewClient env ''http://localhost:3000'' [] [] =
     \<lparr>ClientError = None, session = \<lparr>own_Transport = True, Timeout = 0\<rparr>,
      Transport = Some \<lparr>header = required_headers ''public'' [], baseURL = localhost, Parent = None\<rparr>,
      useFastHTTP = False, fastHTTPClient = None\<rparr>"
  by (simp add: NewClient_def optional_headers_def)

lemma NewClientFast_localhost:
  "url_Parse env ''http://localhost:3000'' = Inr localhost \<Longrightarrow>
   NewClientFast env ''http://localhost:3000'' [] [] =
     \<lparr>ClientError = None, session = http_Client_zero,
      Transport = Some \<lparr>header = required_headers ''public'' [], baseURL = localhost, Parent = None\<rparr>,
      useFastHTTP = True, fastHTTPClient = Some \<lparr>MaxConnsPerHost = 30\<rparr>\<rparr>"
  by (simp add: NewClientFast_def optional_headers_def)

lemma test_Parse_localhost: "test_Parse ''http://localhost:3000'' = Inr localhost"
  by (simp add: test_Parse_def localhost_def)

lemma Path_localhost: "Path localhost = []"
  by (simp add: localhost_def)

lemma test_full_localhost: "test_ResolveReference localhost (URL_of_Path []) = localhost"
  by (simp add: test_ResolveReference_def URL_of_Path_def localhost_def)

lemma test_ResolveReference_absolute: "test_ResolveReference localhost localhost = localhost"
  by (simp add: test_ResolveReference_def localhost_def)

lemma test_String_localhost: "test_String localhost = ''http://localhost:3000''"
  by (simp add: test_String_def localhost_def)

lemma removeEmptyPort_localhost: "removeEmptyPort ''localhost:3000'' = ''localhost:3000''"
  by code_simp

lemma normalize_localhost: "localhost\<lparr>Host := removeEmptyPort (Host localhost)\<rparr> = localhost"
  by (simp add: localhost_def removeEmptyPort_localhost)

lemma add_default_headers_baseline:
  "add_default_headers (required_headers s []) [] = required_headers s []"
  by (simp add: required_headers_Nil add_default_headers_def Header_Add_def Header_Values_def
      canonical_baseline)

lemma fasthttp_add_default_headers_baseline:
  "fasthttp_add_default_headers (required_headers s []) [] = Header_entries (required_headers s [])"
  by (simp add: required_headers_Nil fasthttp_add_default_headers_def Header_entries_def)

text \<open>
  Claim C3, evaluated on a fresh client of each engine against a server that answers at
  once. Both send a GET for the base URL. The fasthttp branch passes a deadline of five
  seconds (\<open>Some 5\<close>). The net/http branch goes through \<^verbatim>\<open>c.session.Do\<close>, and the
  session was built as \<^verbatim>\<open>http.Client{Transport: &t}\<close>: its \<^verbatim>\<open>Timeout\<close> is zero, which
  for net/http means no timeout, so this request has no deadline at all.
\<close>

theorem Ping_net_http_without_deadline:
  "Ping env_ok (NewClient env_ok ''http://localhost:3000'' [] []) =
     Returns (NewClient env_ok ''http://localhost:3000'' [] [], True,
       [NetHTTP \<lparr>req_Method = ''GET'', req_URL = localhost,
                 req_Header = required_headers ''public'' [], req_Body = []\<rparr> 0])
   \<and> Ping env_ok (NewClientFast env_ok ''http://localhost:3000'' [] []) =
     Returns (NewClientFast env_ok ''http://localhost:3000'' [] [], True,
       [FastHTTP \<lparr>MaxConnsPerHost = 30\<rparr>
          \<lparr>freq_Method = ''GET'', freq_RequestURI = ''http://localhost:3000'',
           freq_Header = Header_entries (required_headers ''public'' []), freq_Body = []\<rparr>
          (Some 5)])"
proof -
  have p: "url_Parse env_ok ''http://localhost:3000'' = Inr localhost"
    by (simp add: env_ok_def test_env_def test_Parse_localhost)
  have std: "Ping env_ok (NewClient env_ok ''http://localhost:3000'' [] []) =
     Returns (NewClient env_ok ''http://localhost:3000'' [] [], True,
       [NetHTTP \<lparr>req_Method = ''GET'', req_URL = localhost,
                 req_Header = required_headers ''public'' [], req_Body = []\<rparr> 0])"
    unfolding NewClient_localhost [OF p]
    by (simp add: Ping_def env_ok_def test_env_def Path_localhost test_full_localhost test_ResolveReference_absolute test_String_localhost
        test_Parse_localhost http_NewRequest_def NewRequest_URL_def normalize_localhost
        session_Do_def RoundTrip_def
        add_default_headers_baseline http_answer_ok_def)
  have fast: "Ping env_ok (NewClientFast env_ok ''http://localhost:3000'' [] []) =
     Returns (NewClientFast env_ok ''http://localhost:3000'' [] [], True,
       [FastHTTP \<lparr>MaxConnsPerHost = 30\<rparr>
          \<lparr>freq_Method = ''GET'', freq_RequestURI = ''http://localhost:3000'',
           freq_Header = Header_entries (required_headers ''public'' []), freq_Body = []\<rparr>
          (Some 5)])"
    unfolding NewClientFast_localhost [OF p]
    by (simp add: Ping_def env_ok_def test_env_def Path_localhost test_full_localhost test_ResolveReference_absolute test_String_localhost
        fasthttp_AcquireRequest_def fasthttp_add_default_headers_baseline fast_answer_ok_def)
  show ?thesis using std fast by simp
qed

text \<open>
  Claim C5, evaluated on a fresh net/http client against a server that answers with the
  status code 200 and no reason phrase. The branch compares the status text with
  \<^verbatim>\<open>200 OK\<close> (the fasthttp branch compares the status code with 200), so \<^verbatim>\<open>Ping\<close>
  records \<^verbatim>\<open>ping failed\<close> and returns false although the server answered 200.
\<close>

theorem Ping_net_http_compares_status_text:
  "Ping env_no_reason (NewClient env_no_reason ''http://localhost:3000'' [] []) =
     Returns ((NewClient env_no_reason ''http://localhost:3000'' [] [])
                \<lparr>ClientError := Some (errors_New ''ping failed'')\<rparr>, False,
       [NetHTTP \<lparr>req_Method = ''GET'', req_URL = localhost,
                 req_Header = required_headers ''public'' [], req_Body = []\<rparr> 0])
   \<and> DefaultTransport env_no_reason
         \<lparr>req_Method = ''GET'', req_URL = localhost,
          req_Header = required_headers ''public'' [], req_Body = []\<rparr> =
       Inr \<lparr>Status = ''200 '', StatusCode = 200, Body = \<lparr>ReadAll = Inr [], Close = None\<rparr>\<rparr>"
proof -
  have p: "url_Parse env_no_reason ''http://localhost:3000'' = Inr localhost"
    by (simp add: env_no_reason_def test_env_def test_Parse_localhost)
  show ?thesis
    unfolding NewClient_localhost [OF p]
    by (simp add: Ping_def env_no_reason_def test_env_def Path_localhost test_full_localhost test_ResolveReference_absolute test_String_localhost
        test_Parse_localhost http_NewRequest_def NewRequest_URL_def normalize_localhost
        session_Do_def RoundTrip_def
        add_default_headers_baseline)
qed

subsection \<open>The typed setters\<close>

lemma canonical_apikey: "CanonicalMIMEHeaderKey ''apikey'' = ''Apikey''"
  by code_simp
lemma canonical_Authorization: "CanonicalMIMEHeaderKey ''Authorization'' = ''Authorization''"
  by code_simp

lemma call_setter_Transport:
  "call_setter c s = Returns c' \<Longrightarrow> Transport c \<noteq> None \<and> Transport c' \<noteq> None"
  by (cases s) (auto simp: SetApiKey_def SetAuthToken_def ChangeSchema_def split: option.splits)

lemma call_setter_map_of:
  assumes "call_setter c s = Returns c'"
  shows "map_of (HeaderSet c') name =
           (case map_of (rev (written s)) name of
              Some v \<Rightarrow> Some [v]
            | None \<Rightarrow> map_of (HeaderSet c) name)"
  using assms
  by (cases s)
    (auto simp: SetApiKey_def SetAuthToken_def ChangeSchema_def HeaderSet_def map_of_Header_Set
      canonical_apikey canonical_Authorization canonical_baseline split: option.splits)

lemma call_setters_map_of:
  "call_setters c ss = Returns c' \<Longrightarrow>
   map_of (HeaderSet c') name =
     (case last_written ss name of Some v \<Rightarrow> Some [v] | None \<Rightarrow> map_of (HeaderSet c) name)"
proof (induction ss arbitrary: c)
  case Nil
  then show ?case by (simp add: last_written_def)
next
  case (Cons s ss)
  from Cons.prems obtain c1 where s: "call_setter c s = Returns c1"
    and ss: "call_setters c1 ss = Returns c'"
    by (auto split: exec.splits)
  show ?case
    using Cons.IH [OF ss] call_setter_map_of [OF s, of name]
    by (auto simp: last_written_def map_add_def split: option.splits)
qed

lemma call_setters_total:
  "Transport c \<noteq> None \<Longrightarrow> \<exists>c'. call_setters c ss = Returns c'"
proof (induction ss arbitrary: c)
  case Nil
  show ?case by simp
next
  case (Cons s ss)
  from Cons.prems obtain t where t: "Transport c = Some t" by auto
  then obtain c1 where s: "call_setter c s = Returns c1"
    by (cases s) (auto simp: SetApiKey_def SetAuthToken_def ChangeSchema_def)
  with Cons.IH [of c1] call_setter_Transport [OF s] show ?case by auto
qed

lemma Header_entries_Cons:
  "Header_entries ((k, vs) # h) = map (Pair k) vs @ Header_entries h"
  by (simp add: Header_entries_def)

lemma filter_Pair_same: "filter (\<lambda>e. fst e = k) (map (Pair k) vs) = map (Pair k) vs"
  by (induction vs) auto

lemma filter_Pair_other: "k \<noteq> name \<Longrightarrow> filter (\<lambda>e. fst e = name) (map (Pair k) vs) = []"
  by (induction vs) auto

lemma entries_of_name:
  "distinct (map fst h) \<Longrightarrow>
   filter (\<lambda>e. fst e = name) (Header_entries h) = map (Pair name) (Header_Values h name)"
proof (induction h)
  case Nil
  show ?case by (simp add: Header_entries_def Header_Values_def)
next
  case (Cons p h)
  obtain k vs where p: "p = (k, vs)" by (cases p)
  show ?case
  proof (cases "k = name")
    case True
    then have "name \<notin> fst ` set h" using Cons.prems p by auto
    then have "map_of h name = None" by (simp add: map_of_eq_None_iff)
    then have "filter (\<lambda>e. fst e = name) (Header_entries h) = []"
      using Cons.IH Cons.prems by (simp add: Header_Values_def)
    then show ?thesis
      unfolding p True Header_entries_Cons by (simp add: filter_Pair_same Header_Values_def)
  next
    case False
    then show ?thesis
      unfolding p Header_entries_Cons
      using Cons.IH Cons.prems by (simp add: filter_Pair_other Header_Values_def)
  qed
qed

lemma distinct_Header_Set:
  "distinct (map fst h) \<Longrightarrow> distinct (map fst (Header_Set key val h))"
  by (simp add: Header_Set_def distinct_update)

lemma call_setter_distinct:
  "call_setter c s = Returns c' \<Longrightarrow> distinct (map fst (HeaderSet c)) \<Longrightarrow>
   distinct (map fst (HeaderSet c'))"
  by (cases s)
    (auto simp: SetApiKey_def SetAuthToken_def ChangeSchema_def HeaderSet_def distinct_Header_Set
      split: option.splits)

lemma call_setters_distinct:
  "call_setters c ss = Returns c' \<Longrightarrow> distinct (map fst (HeaderSet c)) \<Longrightarrow>
   distinct (map fst (HeaderSet c'))"
proof (induction ss arbitrary: c)
  case Nil
  then show ?case by simp
next
  case (Cons s ss)
  from Cons.prems obtain c1 where s: "call_setter c s = Returns c1"
    and ss: "call_setters c1 ss = Returns c'"
    by (auto split: exec.splits)
  show ?case using Cons.IH [OF ss] call_setter_distinct [OF s] Cons.prems by simp
qed

text \<open>
  Claim C7, as the code has it. On a client with a transport every sequence of \<^verbatim>\<open>SetApiKey\<close>,
  \<^verbatim>\<open>SetAuthToken\<close> and \<^verbatim>\<open>ChangeSchema\<close> calls returns, and afterwards every header name
  written by some call of the sequence holds exactly one value, the one written last,
  whatever it held before; on the wire that is exactly one header line of that name
  (the keys of a Go map are distinct). A name no call wrote keeps its values. In
  particular \<^verbatim>\<open>SetApiKey("X")\<close> then \<^verbatim>\<open>SetApiKey("Y")\<close> leaves the one value \<^verbatim>\<open>Y\<close>
  under \<^verbatim>\<open>apikey\<close> (stored as \<^verbatim>\<open>Apikey\<close>), and \<^verbatim>\<open>SetAuthToken(a)\<close> leaves the one
  value \<^verbatim>\<open>Bearer\<close> and \<^verbatim>\<open>a\<close> under \<^verbatim>\<open>Authorization\<close>.
\<close>

theorem setters_replace:
  assumes t: "Transport c \<noteq> None"
  shows "\<exists>c'. call_setters c ss = Returns c'
       \<and> (\<forall>name v. last_written ss name = Some v \<longrightarrow>
            map_of (HeaderSet c') name = Some [v]
          \<and> (distinct (map fst (HeaderSet c)) \<longrightarrow>
               filter (\<lambda>e. fst e = name) (Header_entries (HeaderSet c')) = [(name, v)]))
       \<and> (\<forall>name. last_written ss name = None \<longrightarrow>
            map_of (HeaderSet c') name = map_of (HeaderSet c) name)
       \<and> (\<forall>x y. ss = [Call_SetApiKey x, Call_SetApiKey y] \<longrightarrow>
            map_of (HeaderSet c') ''Apikey'' = Some [y])
       \<and> (\<forall>a. ss = [Call_SetAuthToken a] \<longrightarrow>
            map_of (HeaderSet c') ''Authorization'' = Some [''Bearer '' @ a])"
proof -
  obtain c' where run: "call_setters c ss = Returns c'"
    using call_setters_total [OF t] by blast
  have m: "map_of (HeaderSet c') name =
     (case last_written ss name of Some v \<Rightarrow> Some [v] | None \<Rightarrow> map_of (HeaderSet c) name)"
    for name
    using call_setters_map_of [OF run] .
  have e: "filter (\<lambda>e. fst e = name) (Header_entries (HeaderSet c')) = [(name, v)]"
    if "last_written ss name = Some v" "distinct (map fst (HeaderSet c))" for name v
    using that m [of name] entries_of_name [OF call_setters_distinct [OF run], of name]
    by (simp add: Header_Values_def)
  have a: "map_of (HeaderSet c') ''Apikey'' = Some [y]"
    if "ss = [Call_SetApiKey x, Call_SetApiKey y]" for x y
    using m [of "''Apikey''"] that by (simp add: last_written_def)
  have b: "map_of (HeaderSet c') ''Authorization'' = Some [''Bearer '' @ a]"
    if "ss = [Call_SetAuthToken a]" for a
    using m [of "''Authorization''"] that by (simp add: last_written_def)
  show ?thesis using run m e a b by simp
qed

lemma HeaderSet_fresh:
  "HeaderSet (NewClient env_ok ''http://localhost:3000'' [] []) = required_headers ''public'' []"
  by (simp add: HeaderSet_NewClient [OF parse_localhost] optional_headers_def)

theorem setters_replace_witness:
  "Transport (NewClient env_ok ''http://localhost:3000'' [] []) \<noteq> None
   \<and> distinct (map fst (HeaderSet (NewClient env_ok ''http://localhost:3000'' [] [])))
   \<and> (\<exists>c'. call_setters (NewClient env_ok ''http://localhost:3000'' [] [])
               [Call_SetApiKey ''X'', Call_SetApiKey ''Y''] = Returns c'
          \<and> map_of (HeaderSet c') ''Apikey'' = Some [''Y'']
          \<and> filter (\<lambda>e. fst e = ''Apikey'') (Header_entries (HeaderSet c')) = [(''Apikey'', ''Y'')]
          \<and> map_of (HeaderSet c') ''Accept'' = Some [''application/json''])
   \<and> (\<exists>c'. call_setters (NewClient env_ok ''http://localhost:3000'' [] [])
               [Call_SetAuthToken ''abc''] = Returns c'
          \<and> map_of (HeaderSet c') ''Authorization'' = Some [''Bearer abc''])"
proof -
  let ?c = "NewClient env_ok ''http://localhost:3000'' [] []"
  have t: "Transport ?c \<noteq> None"
    by (rule Transport_NewClient [OF parse_localhost])
  have d: "distinct (map fst (HeaderSet ?c))"
    by (simp add: HeaderSet_fresh required_headers_Nil)
  have w: "last_written [Call_SetApiKey ''X'', Call_SetApiKey ''Y''] ''Apikey'' = Some ''Y''"
    by (simp add: last_written_def)
  have n: "last_written [Call_SetApiKey ''X'', Call_SetApiKey ''Y''] ''Accept'' = None"
    by (simp add: last_written_def)
  have acc: "map_of (HeaderSet ?c) ''Accept'' = Some [''application/json'']"
    by (simp add: HeaderSet_fresh required_headers_Nil)
  have one: "\<exists>c'. call_setters ?c [Call_SetApiKey ''X'', Call_SetApiKey ''Y''] = Returns c'
          \<and> map_of (HeaderSet c') ''Apikey'' = Some [''Y'']
          \<and> filter (\<lambda>e. fst e = ''Apikey'') (Header_entries (HeaderSet c')) = [(''Apikey'', ''Y'')]
          \<and> map_of (HeaderSet c') ''Accept'' = Some [''application/json'']"
    using setters_replace [OF t, of "[Call_SetApiKey ''X'', Call_SetApiKey ''Y'']"] d w n acc
    by metis
  have two: "\<exists>c'. call_setters ?c [Call_SetAuthToken ''abc''] = Returns c'
          \<and> map_of (HeaderSet c') ''Authorization'' = Some [''Bearer abc'']"
    using setters_replace [OF t, of "[Call_SetAuthToken ''abc'']"] by auto
  show ?thesis using t d one two by blast
qed

text \<open>
  The claim as the specification words it (every client) fails on the client that a
  failed \<^verbatim>\<open>NewClient\<close> returns: each setter writes through the nil \<^verbatim>\<open>Transport\<close> and
  panics.
\<close>

theorem setters_on_failed_client_counterexample:
  "url_Parse env_ok '':bad'' = Inl (url_Error ''missing protocol scheme'')
   \<and> Transport (NewClient env_ok '':bad'' [] []) = None
   \<and> SetApiKey (NewClient env_ok '':bad'' [] []) ''X'' = Panics
   \<and> SetAuthToken (NewClient env_ok '':bad'' [] []) ''t'' = Panics
   \<and> ChangeSchema (NewClient env_ok '':bad'' [] []) ''s'' = Panics
   \<and> call_setters (NewClient env_ok '':bad'' [] []) [Call_SetApiKey ''X'', Call_SetApiKey ''Y'']
       = Panics"
proof -
  have p: "url_Parse env_ok '':bad'' = Inl (url_Error ''missing protocol scheme'')"
    by (simp add: env_ok_def test_env_def test_Parse_colon)
  show ?thesis
    using p
    by (simp add: NewClient_parse_error SetApiKey_def SetAuthToken_def ChangeSchema_def)
qed

subsection \<open>The engine of a client\<close>

lemma Ping_engine:
  "Ping env c = Returns (c', ok, w) \<Longrightarrow>
   useFastHTTP c' = useFastHTTP c \<and> list_all (\<lambda>k. through_fasthttp k = useFastHTTP c) w"
  by (auto simp: Ping_def Let_def split: option.splits sum.splits if_splits prod.splits)

lemma Rpc_engine:
  "Rpc env c name cnt rpcBody = Returns (c', result, w) \<Longrightarrow>
   useFastHTTP c' = useFastHTTP c \<and> list_all (\<lambda>k. through_fasthttp k = useFastHTTP c) w"
  by (auto simp: Rpc_def Let_def split: option.splits sum.splits if_splits prod.splits)

lemma call_setter_engine:
  "call_setter c s = Returns c' \<Longrightarrow> useFastHTTP c' = useFastHTTP c"
  by (cases s) (auto simp: SetApiKey_def SetAuthToken_def ChangeSchema_def split: option.splits)

lemma SetFastHTTPMaxConns_engine: "useFastHTTP (SetFastHTTPMaxConns c n) = useFastHTTP c"
  by (simp add: SetFastHTTPMaxConns_def Let_def)

lemma call_op_engine:
  assumes "call_op env c x = Returns (c', w)"
  shows "useFastHTTP c' = useFastHTTP c \<and> list_all (\<lambda>k. through_fasthttp k = useFastHTTP c) w"
proof (cases x)
  case (Op_SetFastHTTPMaxConns n)
  with assms show ?thesis by (auto simp: SetFastHTTPMaxConns_engine)
next
  case (Op_Set s)
  with assms show ?thesis by (auto split: exec.splits dest: call_setter_engine)
next
  case Op_Ping
  with assms show ?thesis by (auto split: exec.splits dest: Ping_engine)
next
  case (Op_Rpc name cnt rpcBody)
  with assms show ?thesis by (auto split: exec.splits dest: Rpc_engine)
qed

lemma call_ops_engine:
  "call_ops env c xs = Returns (c', w) \<Longrightarrow>
   useFastHTTP c' = useFastHTTP c \<and> list_all (\<lambda>k. through_fasthttp k = useFastHTTP c) w"
proof (induction xs arbitrary: c w)
  case Nil
  then show ?case by simp
next
  case (Cons x xs)
  from Cons.prems obtain c1 w1 w2 where x: "call_op env c x = Returns (c1, w1)"
    and xs: "call_ops env c1 xs = Returns (c', w2)" and w: "w = w1 @ w2"
    by (auto split: exec.splits)
  show ?case
    using call_op_engine [OF x] Cons.IH [OF xs] w by simp
qed

text \<open>
  Claim C8. The engine is the flag \<^verbatim>\<open>useFastHTTP\<close>: \<^verbatim>\<open>NewClient\<close> leaves it false and
  a successful \<^verbatim>\<open>NewClientFast\<close> sets it. No sequence of operations
  (\<^verbatim>\<open>SetFastHTTPMaxConns\<close>, the typed setters, \<^verbatim>\<open>Ping\<close>, \<^verbatim>\<open>Rpc\<close>) changes the flag,
  and every request that \<^verbatim>\<open>Ping\<close> and \<^verbatim>\<open>Rpc\<close> hand to an engine in the course of the
  sequence goes through the engine the flag named at the start, also after
  \<^verbatim>\<open>SetFastHTTPMaxConns\<close> has given a net/http client a fasthttp client.
\<close>

theorem engine_fixed:
  assumes "call_ops env c xs = Returns (c', w)"
  shows "useFastHTTP c' = useFastHTTP c
       \<and> list_all (\<lambda>k. through_fasthttp k = useFastHTTP c) w
       \<and> useFastHTTP (SetFastHTTPMaxConns c n) = useFastHTTP c
       \<and> \<not> useFastHTTP (NewClient env rawURL schema headers)
       \<and> (\<forall>u. url_Parse env rawURL = Inr u \<longrightarrow>
            useFastHTTP (NewClientFast env rawURL schema headers))"
  using call_ops_engine [OF assms] SetFastHTTPMaxConns_engine [of c n]
  by (auto simp: NewClient_def NewClientFast_def Let_def split: sum.splits)

theorem engine_fixed_witness:
  "call_ops env_ok (NewClient env_ok ''http://localhost:3000'' [] [])
     [Op_SetFastHTTPMaxConns 100, Op_Ping, Op_Set (Call_SetApiKey ''k''),
      Op_Rpc ''add_them'' [] None] =
     Returns
       (\<lparr>ClientError = None, session = \<lparr>own_Transport = True, Timeout = 0\<rparr>,
         Transport = Some \<lparr>header = required_headers ''public'' [] @ [(''Apikey'', [''k''])],
                           baseURL = localhost, Parent = None\<rparr>,
         useFastHTTP = False, fastHTTPClient = Some \<lparr>MaxConnsPerHost = 100\<rparr>\<rparr>,
        [NetHTTP \<lparr>req_Method = ''GET'', req_URL = localhost,
                  req_Header = required_headers ''public'' [], req_Body = []\<rparr> 0,
         NetHTTP \<lparr>req_Method = ''POST'',
                  req_URL = localhost\<lparr>Path := ''/rpc/add_them''\<rparr>,
                  req_Header = required_headers ''public'' [] @ [(''Apikey'', [''k''])],
                  req_Body = []\<rparr> 0])
   \<and> useFastHTTP (NewClient env_ok ''http://localhost:3000'' [] []) = False
   \<and> useFastHTTP (NewClientFast env_ok ''http://localhost:3000'' [] []) = True"
proof -
  have p: "url_Parse env_ok ''http://localhost:3000'' = Inr localhost"
    by (simp add: env_ok_def test_env_def test_Parse_localhost)
  have run: "call_ops env_ok (NewClient env_ok ''http://localhost:3000'' [] [])
     [Op_SetFastHTTPMaxConns 100, Op_Ping, Op_Set (Call_SetApiKey ''k''),
      Op_Rpc ''add_them'' [] None] =
     Returns
       (\<lparr>ClientError = None, session = \<lparr>own_Transport = True, Timeout = 0\<rparr>,
         Transport = Some \<lparr>header = required_headers ''public'' [] @ [(''Apikey'', [''k''])],
                           baseURL = localhost, Parent = None\<rparr>,
         useFastHTTP = False, fastHTTPClient = Some \<lparr>MaxConnsPerHost = 100\<rparr>\<rparr>,
        [NetHTTP \<lparr>req_Method = ''GET'', req_URL = localhost,
                  req_Header = required_headers ''public'' [], req_Body = []\<rparr> 0,
         NetHTTP \<lparr>req_Method = ''POST'',
                  req_URL = localhost\<lparr>Path := ''/rpc/add_them''\<rparr>,
                  req_Header = required_headers ''public'' [] @ [(''Apikey'', [''k''])],
                  req_Body = []\<rparr> 0])"
    unfolding NewClient_localhost [OF p]
    by code_simp
  show ?thesis
    using run engine_fixed [OF run, of 100 "''http://localhost:3000''" "[]" "[]"] p
    by simp
qed

subsection \<open>Canonical keys and valid clients\<close>

lemma of_char_upper: "97 \<le> n \<Longrightarrow> n \<le> 122 \<Longrightarrow> (of_char (char_of (n - 32 :: nat)) :: nat) = n - 32"
  by simp

lemma of_char_lower: "65 \<le> n \<Longrightarrow> n \<le> 90 \<Longrightarrow> (of_char (char_of (n + 32 :: nat)) :: nat) = n + 32"
  by simp

lemma canonicalByte_cases:
  fixes c :: char
  defines "n \<equiv> (of_char c :: nat)"
  shows "(upper \<and> 97 \<le> n \<and> n \<le> 122 \<and> canonicalByte upper c = char_of (n - 32))
       \<or> (\<not> upper \<and> 65 \<le> n \<and> n \<le> 90 \<and> canonicalByte upper c = char_of (n + 32))
       \<or> (\<not> (upper \<and> 97 \<le> n \<and> n \<le> 122) \<and> \<not> (\<not> upper \<and> 65 \<le> n \<and> n \<le> 90)
            \<and> canonicalByte upper c = c)"
  unfolding n_def canonicalByte_def Let_def by (cases upper) simp_all

lemma canonicalByte_idem: "canonicalByte upper (canonicalByte upper c) = canonicalByte upper c"
proof -
  let ?n = "of_char c :: nat"
  consider (up) "upper" "97 \<le> ?n" "?n \<le> 122" "canonicalByte upper c = char_of (?n - 32)"
    | (low) "\<not> upper" "65 \<le> ?n" "?n \<le> 90" "canonicalByte upper c = char_of (?n + 32)"
    | (same) "\<not> (upper \<and> 97 \<le> ?n \<and> ?n \<le> 122)" "\<not> (\<not> upper \<and> 65 \<le> ?n \<and> ?n \<le> 90)"
        "canonicalByte upper c = c"
    using canonicalByte_cases [of upper c] by blast
  then show ?thesis
  proof cases
    case up
    have "(of_char (char_of (?n - 32)) :: nat) = ?n - 32"
      using up by (intro of_char_upper)
    then have "canonicalByte upper (char_of (?n - 32)) = char_of (?n - 32)"
      using up unfolding canonicalByte_def Let_def by (simp del: of_char_of; arith)
    with up show ?thesis by simp
  next
    case low
    have "(of_char (char_of (?n + 32)) :: nat) = ?n + 32"
      using low by (intro of_char_lower)
    then have "canonicalByte upper (char_of (?n + 32)) = char_of (?n + 32)"
      using low unfolding canonicalByte_def Let_def by (simp del: of_char_of; arith)
    with low show ?thesis by simp
  next
    case same
    show ?thesis by (simp add: same(3))
  qed
qed

lemma valid_canonicalByte: "validHeaderFieldByte c \<Longrightarrow> validHeaderFieldByte (canonicalByte upper c)"
proof -
  assume v: "validHeaderFieldByte c"
  let ?n = "of_char c :: nat"
  consider (up) "upper" "97 \<le> ?n" "?n \<le> 122" "canonicalByte upper c = char_of (?n - 32)"
    | (low) "\<not> upper" "65 \<le> ?n" "?n \<le> 90" "canonicalByte upper c = char_of (?n + 32)"
    | (same) "canonicalByte upper c = c"
    using canonicalByte_cases [of upper c] by blast
  then show ?thesis
  proof cases
    case up
    have "(of_char (char_of (?n - 32)) :: nat) = ?n - 32"
      using up by (intro of_char_upper)
    then have "validHeaderFieldByte (char_of (?n - 32))"
      using up unfolding validHeaderFieldByte_def Let_def by (simp del: of_char_of; arith)
    with up show ?thesis by simp
  next
    case low
    have "(of_char (char_of (?n + 32)) :: nat) = ?n + 32"
      using low by (intro of_char_lower)
    then have "validHeaderFieldByte (char_of (?n + 32))"
      using low unfolding validHeaderFieldByte_def Let_def by (simp del: of_char_of; arith)
    with low show ?thesis by simp
  next
    case same
    with v show ?thesis by simp
  qed
qed

lemma canonicalBytes_idem: "canonicalBytes upper (canonicalBytes upper s) = canonicalBytes upper s"
  by (induction s arbitrary: upper) (simp_all add: canonicalByte_idem)

lemma valid_canonicalBytes:
  "list_all validHeaderFieldByte s \<Longrightarrow> list_all validHeaderFieldByte (canonicalBytes upper s)"
  by (induction s arbitrary: upper) (simp_all add: valid_canonicalByte)

lemma CanonicalMIMEHeaderKey_idem:
  "CanonicalMIMEHeaderKey (CanonicalMIMEHeaderKey s) = CanonicalMIMEHeaderKey s"
  by (simp add: CanonicalMIMEHeaderKey_def valid_canonicalBytes canonicalBytes_idem)

lemma canonical_keys_update:
  "canonical_keys h \<Longrightarrow> CanonicalMIMEHeaderKey k = k \<Longrightarrow> canonical_keys (AList.update k vs h)"
  by (induction h) (auto simp: canonical_keys_def)

lemma canonical_keys_Header_Set: "canonical_keys h \<Longrightarrow> canonical_keys (Header_Set key val h)"
  by (simp add: Header_Set_def canonical_keys_update CanonicalMIMEHeaderKey_idem)







lemma call_setter_valid: "call_setter c s = Returns c' \<Longrightarrow> valid_client c \<Longrightarrow> valid_client c'"
  by (cases s)
    (auto simp: SetApiKey_def SetAuthToken_def ChangeSchema_def valid_client_def
      canonical_keys_Header_Set distinct_Header_Set split: option.splits)

lemma SetFastHTTPMaxConns_valid: "valid_client c \<Longrightarrow> valid_client (SetFastHTTPMaxConns c n)"
  by (auto simp: SetFastHTTPMaxConns_def valid_client_def Let_def split: option.splits)

subsection \<open>The branches of Rpc\<close>

lemma Rpc_marshal_error:
  "byteBody_of env rpcBody = Inl err \<Longrightarrow>
   Rpc env c name cnt rpcBody = Returns (c\<lparr>ClientError := Some err\<rparr>, [], [])"
  by (auto simp: Rpc_def byteBody_of_def split: option.splits sum.splits)

lemma Rpc_nil_Transport:
  "byteBody_of env rpcBody = Inr bb \<Longrightarrow> Transport c = None \<Longrightarrow>
   Rpc env c name cnt rpcBody = Panics"
  by (auto simp: Rpc_def byteBody_of_def split: option.splits sum.splits)

lemma Rpc_fasthttp:
  assumes "byteBody_of env rpcBody = Inr bb" "Transport c = Some t" "useFastHTTP c"
    "fastHTTPClient c = Some fc"
  shows "Rpc env c name cnt rpcBody =
     (case fasthttp_Do env fc (Rpc_fasthttp_request env t name cnt bb) None of
        Inl err \<Rightarrow>
          Returns (c\<lparr>ClientError := Some err\<rparr>, [],
                   [FastHTTP fc (Rpc_fasthttp_request env t name cnt bb) None])
      | Inr resp \<Rightarrow>
          Returns (c, fresp_Body resp,
                   [FastHTTP fc (Rpc_fasthttp_request env t name cnt bb) None]))"
proof -
  have b: "(case rpcBody of
              None \<Rightarrow> Inr None
            | Some b \<Rightarrow> (case json_Marshal env b of
                           Inl err \<Rightarrow> Inl err
                         | Inr jsonBody \<Rightarrow> Inr (Some jsonBody))) = Inr bb"
    using assms(1) by (simp add: byteBody_of_def)
  show ?thesis
    unfolding Rpc_def b
    using assms(2-4)
    by (cases bb)
      (simp_all add: Let_def Rpc_fasthttp_request_def Rpc_full_def payload_def Prefer_lines_def
        fasthttp_AcquireRequest_def split: sum.splits)
qed

lemma Rpc_http_parse_error:
  assumes "byteBody_of env rpcBody = Inr bb" "Transport c = Some t" "\<not> useFastHTTP c"
    "NewRequest_URL env (URL_String env (Rpc_full env t name)) = Inl err"
  shows "Rpc env c name cnt rpcBody = Returns (c\<lparr>ClientError := Some err\<rparr>, [], [])"
proof -
  have b: "(case rpcBody of
              None \<Rightarrow> Inr None
            | Some b \<Rightarrow> (case json_Marshal env b of
                           Inl err \<Rightarrow> Inl err
                         | Inr jsonBody \<Rightarrow> Inr (Some jsonBody))) = Inr bb"
    using assms(1) by (simp add: byteBody_of_def)
  show ?thesis
    unfolding Rpc_def b
    using assms(2-4) by (simp add: Let_def http_NewRequest_def Rpc_full_def)
qed

lemma Rpc_http:
  assumes "byteBody_of env rpcBody = Inr bb" "Transport c = Some t" "\<not> useFastHTTP c"
    "NewRequest_URL env (URL_String env (Rpc_full env t name)) = Inr u"
    "session_Do env (session c) t (Rpc_http_request u cnt bb) = (sent, answer)"
  shows "Rpc env c name cnt rpcBody =
     (case answer of
        Inl err \<Rightarrow>
          Returns (c\<lparr>ClientError := Some err\<rparr>, [], [NetHTTP sent (Timeout (session c))])
      | Inr resp \<Rightarrow>
          (case ReadAll (Body resp) of
             Inl err \<Rightarrow>
               Returns (c\<lparr>ClientError := Some err\<rparr>, [], [NetHTTP sent (Timeout (session c))])
           | Inr body \<Rightarrow>
               (case Close (Body resp) of
                  Some err \<Rightarrow>
                    Returns (c\<lparr>ClientError := Some err\<rparr>, [],
                             [NetHTTP sent (Timeout (session c))])
                | None \<Rightarrow> Returns (c, body, [NetHTTP sent (Timeout (session c))]))))"
proof -
  have b: "(case rpcBody of
              None \<Rightarrow> Inr None
            | Some b \<Rightarrow> (case json_Marshal env b of
                           Inl err \<Rightarrow> Inl err
                         | Inr jsonBody \<Rightarrow> Inr (Some jsonBody))) = Inr bb"
    using assms(1) by (simp add: byteBody_of_def)
  show ?thesis
  proof (cases "count_preferred cnt")
    case True
    then have "session_Do env (session c) t
                 \<lparr>req_Method = ''POST'', req_URL = u,
                  req_Header = Header_Add ''Prefer'' (''count='' @ cnt) [],
                  req_Body = (case bb of None \<Rightarrow> [] | Some bs \<Rightarrow> bs)\<rparr> = (sent, answer)"
      using assms(5) by (simp add: Rpc_http_request_def payload_def)
    with True show ?thesis
      unfolding Rpc_def b using assms(2-4)
      by (simp add: Let_def http_NewRequest_def Rpc_full_def split: sum.splits option.splits)
  next
    case False
    then have "session_Do env (session c) t
                 \<lparr>req_Method = ''POST'', req_URL = u, req_Header = [],
                  req_Body = (case bb of None \<Rightarrow> [] | Some bs \<Rightarrow> bs)\<rparr> = (sent, answer)"
      using assms(5) by (simp add: Rpc_http_request_def payload_def)
    with False show ?thesis
      unfolding Rpc_def b using assms(2-4)
      by (simp add: Let_def http_NewRequest_def Rpc_full_def split: sum.splits option.splits)
  qed
qed

subsection \<open>Results and errors of Rpc\<close>

text \<open>
  Claim C6, as the code has it. On a client with a transport \<^verbatim>\<open>Rpc\<close> returns the raw
  response body and leaves the client as it was when no step fails; when the marshalling
  of the body, the construction of the request (net/http branch), the transport, or the
  reading (or closing) of the response body fails, it returns the empty string and the
  client with \<^verbatim>\<open>ClientError\<close> set to the error that the failing call returned (for
  the net/http transport that is the \<^verbatim>\<open>*url.Error\<close> of \<^verbatim>\<open>c.session.Do\<close>). The payload
  of the request is the marshalled body, and it is empty for a nil body.
\<close>

theorem Rpc_error_handling:
  assumes t: "Transport c = Some t"
  shows "(\<forall>err. byteBody_of env rpcBody = Inl err \<longrightarrow>
            Rpc env c name cnt rpcBody = Returns (c\<lparr>ClientError := Some err\<rparr>, [], []))
       \<and> (\<forall>bb fc. byteBody_of env rpcBody = Inr bb \<longrightarrow> useFastHTTP c \<longrightarrow>
            fastHTTPClient c = Some fc \<longrightarrow>
            (\<forall>err. fasthttp_Do env fc (Rpc_fasthttp_request env t name cnt bb) None = Inl err \<longrightarrow>
               Rpc env c name cnt rpcBody =
                 Returns (c\<lparr>ClientError := Some err\<rparr>, [],
                          [FastHTTP fc (Rpc_fasthttp_request env t name cnt bb) None]))
          \<and> (\<forall>resp. fasthttp_Do env fc (Rpc_fasthttp_request env t name cnt bb) None = Inr resp \<longrightarrow>
               Rpc env c name cnt rpcBody =
                 Returns (c, fresp_Body resp,
                          [FastHTTP fc (Rpc_fasthttp_request env t name cnt bb) None])))
       \<and> (\<forall>bb. byteBody_of env rpcBody = Inr bb \<longrightarrow> \<not> useFastHTTP c \<longrightarrow>
            (\<forall>err. NewRequest_URL env (URL_String env (Rpc_full env t name)) = Inl err \<longrightarrow>
               Rpc env c name cnt rpcBody = Returns (c\<lparr>ClientError := Some err\<rparr>, [], []))
          \<and> (\<forall>u sent answer.
                NewRequest_URL env (URL_String env (Rpc_full env t name)) = Inr u \<longrightarrow>
                session_Do env (session c) t (Rpc_http_request u cnt bb) = (sent, answer) \<longrightarrow>
                (\<forall>err. answer = Inl err \<longrightarrow>
                   Rpc env c name cnt rpcBody =
                     Returns (c\<lparr>ClientError := Some err\<rparr>, [],
                              [NetHTTP sent (Timeout (session c))]))
              \<and> (\<forall>resp err. answer = Inr resp \<longrightarrow> ReadAll (Body resp) = Inl err \<longrightarrow>
                   Rpc env c name cnt rpcBody =
                     Returns (c\<lparr>ClientError := Some err\<rparr>, [],
                              [NetHTTP sent (Timeout (session c))]))
              \<and> (\<forall>resp body err. answer = Inr resp \<longrightarrow> ReadAll (Body resp) = Inr body \<longrightarrow>
                   Close (Body resp) = Some err \<longrightarrow>
                   Rpc env c name cnt rpcBody =
                     Returns (c\<lparr>ClientError := Some err\<rparr>, [],
                              [NetHTTP sent (Timeout (session c))]))
              \<and> (\<forall>resp body. answer = Inr resp \<longrightarrow> ReadAll (Body resp) = Inr body \<longrightarrow>
                   Close (Body resp) = None \<longrightarrow>
                   Rpc env c name cnt rpcBody =
                     Returns (c, body, [NetHTTP sent (Timeout (session c))]))
              \<and> req_Body sent = payload bb))
       \<and> (rpcBody = None \<longrightarrow>
            byteBody_of env rpcBody = Inr None \<and> payload None = []
          \<and> freq_Body (Rpc_fasthttp_request env t name cnt None) = [])"
proof -
  have marshal: "\<forall>err. byteBody_of env rpcBody = Inl err \<longrightarrow>
            Rpc env c name cnt rpcBody = Returns (c\<lparr>ClientError := Some err\<rparr>, [], [])"
    by (simp add: Rpc_marshal_error)
  have fast: "\<forall>bb fc. byteBody_of env rpcBody = Inr bb \<longrightarrow> useFastHTTP c \<longrightarrow>
            fastHTTPClient c = Some fc \<longrightarrow>
            (\<forall>err. fasthttp_Do env fc (Rpc_fasthttp_request env t name cnt bb) None = Inl err \<longrightarrow>
               Rpc env c name cnt rpcBody =
                 Returns (c\<lparr>ClientError := Some err\<rparr>, [],
                          [FastHTTP fc (Rpc_fasthttp_request env t name cnt bb) None]))
          \<and> (\<forall>resp. fasthttp_Do env fc (Rpc_fasthttp_request env t name cnt bb) None = Inr resp \<longrightarrow>
               Rpc env c name cnt rpcBody =
                 Returns (c, fresp_Body resp,
                          [FastHTTP fc (Rpc_fasthttp_request env t name cnt bb) None]))"
    by (simp add: Rpc_fasthttp [OF _ t])
  have body: "req_Body sent = payload bb"
    if "session_Do env (session c) t (Rpc_http_request u cnt bb) = (sent, answer)"
    for u sent answer bb
    using that
    by (auto simp: session_Do_def RoundTrip_def Let_def Rpc_http_request_def
        split: if_splits option.splits sum.splits prod.splits)
  have std: "\<forall>bb. byteBody_of env rpcBody = Inr bb \<longrightarrow> \<not> useFastHTTP c \<longrightarrow>
            (\<forall>err. NewRequest_URL env (URL_String env (Rpc_full env t name)) = Inl err \<longrightarrow>
               Rpc env c name cnt rpcBody = Returns (c\<lparr>ClientError := Some err\<rparr>, [], []))
          \<and> (\<forall>u sent answer.
                NewRequest_URL env (URL_String env (Rpc_full env t name)) = Inr u \<longrightarrow>
                session_Do env (session c) t (Rpc_http_request u cnt bb) = (sent, answer) \<longrightarrow>
                (\<forall>err. answer = Inl err \<longrightarrow>
                   Rpc env c name cnt rpcBody =
                     Returns (c\<lparr>ClientError := Some err\<rparr>, [],
                              [NetHTTP sent (Timeout (session c))]))
              \<and> (\<forall>resp err. answer = Inr resp \<longrightarrow> ReadAll (Body resp) = Inl err \<longrightarrow>
                   Rpc env c name cnt rpcBody =
                     Returns (c\<lparr>ClientError := Some err\<rparr>, [],
                              [NetHTTP sent (Timeout (session c))]))
              \<and> (\<forall>resp body err. answer = Inr resp \<longrightarrow> ReadAll (Body resp) = Inr body \<longrightarrow>
                   Close (Body resp) = Some err \<longrightarrow>
                   Rpc env c name cnt rpcBody =
                     Returns (c\<lparr>ClientError := Some err\<rparr>, [],
                              [NetHTTP sent (Timeout (session c))]))
              \<and> (\<forall>resp body. answer = Inr resp \<longrightarrow> ReadAll (Body resp) = Inr body \<longrightarrow>
                   Close (Body resp) = None \<longrightarrow>
                   Rpc env c name cnt rpcBody =
                     Returns (c, body, [NetHTTP sent (Timeout (session c))]))
              \<and> req_Body sent = payload bb)"
    using body by (simp add: Rpc_http_parse_error [OF _ t] Rpc_http [OF _ t])
  have nil: "rpcBody = None \<longrightarrow>
            byteBody_of env rpcBody = Inr None \<and> payload None = []
          \<and> freq_Body (Rpc_fasthttp_request env t name cnt None) = []"
    by (simp add: byteBody_of_def payload_def Rpc_fasthttp_request_def)
  show ?thesis
    using marshal fast std nil by (intro conjI)
qed

lemma test_env_fields:
  "url_Parse (test_env a b) = test_Parse"
  "path_Join (test_env a b) = test_Join"
  "ResolveReference (test_env a b) = test_ResolveReference"
  "URL_String (test_env a b) = test_String"
  "json_Marshal (test_env a b) = test_Marshal"
  "fasthttp_Do (test_env a b) fc freq deadline = a"
  "DefaultTransport (test_env a b) req = b"
  "Parent_RoundTrip (test_env a b) parent req = b"
  by (simp_all add: test_env_def)

lemma parse_localhost_test_env:
  "url_Parse (test_env a b) ''http://localhost:3000'' = Inr localhost"
  by (simp add: test_env_def test_Parse_localhost)

lemma NewClient_test_env:
  "NewClient (test_env a b) ''http://localhost:3000'' [] [] =
     \<lparr>ClientError = None, session = \<lparr>own_Transport = True, Timeout = 0\<rparr>,
      Transport = Some t0, useFastHTTP = False, fastHTTPClient = None\<rparr>"
  by (simp add: NewClient_localhost [OF parse_localhost_test_env] t0_def)

lemma NewClientFast_test_env:
  "NewClientFast (test_env a b) ''http://localhost:3000'' [] [] =
     \<lparr>ClientError = None, session = http_Client_zero,
      Transport = Some t0, useFastHTTP = True, fastHTTPClient = Some \<lparr>MaxConnsPerHost = 30\<rparr>\<rparr>"
  by (simp add: NewClientFast_localhost [OF parse_localhost_test_env] t0_def)

lemma Rpc_full_test_env:
  "Rpc_full (test_env a b) t0 ''add_them'' = localhost\<lparr>Path := ''/rpc/add_them''\<rparr>"
  by (simp add: Rpc_full_def test_env_def t0_def localhost_def test_ResolveReference_def
      URL_of_Path_def)

lemma Rpc_url_test_env:
  "URL_String (test_env a b) (Rpc_full (test_env a b) t0 ''add_them'') =
     ''http://localhost:3000/rpc/add_them''"
  unfolding Rpc_full_test_env by (simp add: test_env_def test_String_def localhost_def)

lemma test_Parse_rpc:
  "test_Parse ''http://localhost:3000/rpc/add_them'' = Inr (localhost\<lparr>Path := ''/rpc/add_them''\<rparr>)"
  by (simp add: test_Parse_def localhost_def)

lemma env_base_only_fields:
  "url_Parse env_base_only =
     (\<lambda>s. if s = ''http://localhost:3000'' then Inr localhost else Inl (url_Error ''invalid URL''))"
  "path_Join env_base_only = test_Join"
  "ResolveReference env_base_only = test_ResolveReference"
  "URL_String env_base_only = test_String"
  by (simp_all add: env_base_only_def env_ok_def test_env_def)

lemma NewClient_env_base_only:
  "NewClient env_base_only ''http://localhost:3000'' [] [] =
     \<lparr>ClientError = None, session = \<lparr>own_Transport = True, Timeout = 0\<rparr>,
      Transport = Some t0, useFastHTTP = False, fastHTTPClient = None\<rparr>"
  by (simp add: NewClient_localhost env_base_only_fields t0_def)

lemma Rpc_url_env_base_only:
  "URL_String env_base_only (Rpc_full env_base_only t0 ''add_them'') =
     ''http://localhost:3000/rpc/add_them''"
  by (simp add: Rpc_full_def env_base_only_fields t0_def localhost_def test_ResolveReference_def
      URL_of_Path_def test_String_def)

lemma session_Do_own:
  "own_Transport s \<Longrightarrow> Parent t = None \<Longrightarrow>
   session_Do env s t req =
     (req\<lparr>req_Header := add_default_headers (header t) (req_Header req),
          req_URL := ResolveReference env (baseURL t) (req_URL req)\<rparr>,
      case DefaultTransport env
             (req\<lparr>req_Header := add_default_headers (header t) (req_Header req),
                  req_URL := ResolveReference env (baseURL t) (req_URL req)\<rparr>) of
        Inl err \<Rightarrow>
          Inl (Do_Error (urlErrorOp (req_Method req))
                 (URL_String env (ResolveReference env (baseURL t) (req_URL req))) err)
      | Inr resp \<Rightarrow> Inr resp)"
  by (simp add: session_Do_def RoundTrip_def Let_def split: sum.splits)

lemma urlErrorOp_POST: "urlErrorOp ''POST'' = ''Post''"
  by code_simp

lemma NewRequest_URL_rpc:
  "NewRequest_URL (test_env a b) ''http://localhost:3000/rpc/add_them'' =
     Inr (localhost\<lparr>Path := ''/rpc/add_them''\<rparr>)"
  by (simp add: NewRequest_URL_def test_env_fields test_Parse_rpc localhost_def
      removeEmptyPort_localhost)

lemma session_Do_test_env:
  "session_Do (test_env a b) \<lparr>own_Transport = True, Timeout = 0\<rparr> t0
     (Rpc_http_request (localhost\<lparr>Path := ''/rpc/add_them''\<rparr>) cnt None) =
     (sent0 cnt,
      case b of
        Inl err \<Rightarrow> Inl (Do_Error ''Post'' ''http://localhost:3000/rpc/add_them'' err)
      | Inr resp \<Rightarrow> Inr resp)"
  by (simp add: session_Do_own t0_def test_env_fields sent0_def Rpc_http_request_def payload_def
      test_ResolveReference_def test_String_def localhost_def urlErrorOp_POST split: sum.splits)

theorem Rpc_error_handling_witness:
  "Rpc env_ok (NewClientFast env_ok ''http://localhost:3000'' [] []) ''add_them'' [] (Some Go_chan) =
     Returns ((NewClientFast env_ok ''http://localhost:3000'' [] [])
                \<lparr>ClientError := Some (json_Error ''unsupported type'')\<rparr>, [], [])
   \<and> Rpc env_ok (NewClientFast env_ok ''http://localhost:3000'' [] []) ''add_them'' [] None =
     Returns (NewClientFast env_ok ''http://localhost:3000'' [] [], ''12'',
              [FastHTTP \<lparr>MaxConnsPerHost = 30\<rparr>
                 (Rpc_fasthttp_request env_ok t0 ''add_them'' [] None) None])
   \<and> freq_Body (Rpc_fasthttp_request env_ok t0 ''add_them'' [] None) = []
   \<and> Rpc env_down (NewClientFast env_down ''http://localhost:3000'' [] []) ''add_them'' [] None =
     Returns ((NewClientFast env_down ''http://localhost:3000'' [] [])
                \<lparr>ClientError := Some (net_Error ''connection refused'')\<rparr>, [],
              [FastHTTP \<lparr>MaxConnsPerHost = 30\<rparr>
                 (Rpc_fasthttp_request env_down t0 ''add_them'' [] None) None])
   \<and> Rpc env_base_only (NewClient env_base_only ''http://localhost:3000'' [] [])
         ''add_them'' [] None =
     Returns ((NewClient env_base_only ''http://localhost:3000'' [] [])
                \<lparr>ClientError := Some (url_Error ''invalid URL'')\<rparr>, [], [])
   \<and> Rpc env_down (NewClient env_down ''http://localhost:3000'' [] []) ''add_them'' [] None =
     Returns ((NewClient env_down ''http://localhost:3000'' [] [])
                \<lparr>ClientError :=
                   Some (Do_Error ''Post'' ''http://localhost:3000/rpc/add_them''
                           (net_Error ''connection refused''))\<rparr>, [],
              [NetHTTP (sent0 []) 0])
   \<and> Rpc env_short_body (NewClient env_short_body ''http://localhost:3000'' [] [])
         ''add_them'' [] None =
     Returns ((NewClient env_short_body ''http://localhost:3000'' [] [])
                \<lparr>ClientError := Some (io_Error ''unexpected EOF'')\<rparr>, [],
              [NetHTTP (sent0 []) 0])
   \<and> Rpc env_ok (NewClient env_ok ''http://localhost:3000'' [] []) ''add_them'' [] None =
     Returns (NewClient env_ok ''http://localhost:3000'' [] [], ''12'', [NetHTTP (sent0 []) 0])"
proof -
  let ?f = "\<lambda>env. NewClientFast env ''http://localhost:3000'' [] []"
  let ?n = "\<lambda>env. NewClient env ''http://localhost:3000'' [] []"
  have m: "Rpc env_ok (?f env_ok) ''add_them'' [] (Some Go_chan) =
     Returns ((?f env_ok)\<lparr>ClientError := Some (json_Error ''unsupported type'')\<rparr>, [], [])"
    using Rpc_error_handling [of "?f env_ok" t0 env_ok "Some Go_chan" "''add_them''" "[]"]
    by (simp add: env_ok_def NewClientFast_test_env byteBody_of_def test_env_fields test_Marshal_def)
  have ok: "Rpc env_ok (?f env_ok) ''add_them'' [] None =
     Returns (?f env_ok, ''12'',
              [FastHTTP \<lparr>MaxConnsPerHost = 30\<rparr>
                 (Rpc_fasthttp_request env_ok t0 ''add_them'' [] None) None])
     \<and> freq_Body (Rpc_fasthttp_request env_ok t0 ''add_them'' [] None) = []"
    using Rpc_error_handling [of "?f env_ok" t0 env_ok None "''add_them''" "[]"]
    by (simp add: env_ok_def NewClientFast_test_env byteBody_of_def test_env_fields fast_answer_ok_def)
  have down: "Rpc env_down (?f env_down) ''add_them'' [] None =
     Returns ((?f env_down)\<lparr>ClientError := Some (net_Error ''connection refused'')\<rparr>, [],
              [FastHTTP \<lparr>MaxConnsPerHost = 30\<rparr>
                 (Rpc_fasthttp_request env_down t0 ''add_them'' [] None) None])"
    using Rpc_error_handling [of "?f env_down" t0 env_down None "''add_them''" "[]"]
    by (simp add: env_down_def NewClientFast_test_env byteBody_of_def test_env_fields)
  have construct: "Rpc env_base_only (?n env_base_only) ''add_them'' [] None =
     Returns ((?n env_base_only)\<lparr>ClientError := Some (url_Error ''invalid URL'')\<rparr>, [], [])"
    using Rpc_error_handling [of "?n env_base_only" t0 env_base_only None "''add_them''" "[]"]
    by (simp add: NewClient_env_base_only byteBody_of_def Rpc_url_env_base_only
        NewRequest_URL_def env_base_only_fields(1))
  have sdown: "Rpc env_down (?n env_down) ''add_them'' [] None =
     Returns ((?n env_down)
                \<lparr>ClientError :=
                   Some (Do_Error ''Post'' ''http://localhost:3000/rpc/add_them''
                           (net_Error ''connection refused''))\<rparr>, [],
              [NetHTTP (sent0 []) 0])"
    using Rpc_error_handling [of "?n env_down" t0 env_down None "''add_them''" "[]"]
    by (simp add: env_down_def NewClient_test_env byteBody_of_def Rpc_url_test_env
        NewRequest_URL_rpc session_Do_test_env)
  have short: "Rpc env_short_body (?n env_short_body) ''add_them'' [] None =
     Returns ((?n env_short_body)\<lparr>ClientError := Some (io_Error ''unexpected EOF'')\<rparr>, [],
              [NetHTTP (sent0 []) 0])"
    using Rpc_error_handling [of "?n env_short_body" t0 env_short_body None "''add_them''" "[]"]
    by (simp add: env_short_body_def NewClient_test_env byteBody_of_def Rpc_url_test_env
        NewRequest_URL_rpc session_Do_test_env)
  have sok: "Rpc env_ok (?n env_ok) ''add_them'' [] None =
     Returns (?n env_ok, ''12'', [NetHTTP (sent0 []) 0])"
    using Rpc_error_handling [of "?n env_ok" t0 env_ok None "''add_them''" "[]"]
    by (simp add: env_ok_def NewClient_test_env byteBody_of_def Rpc_url_test_env
        NewRequest_URL_rpc session_Do_test_env http_answer_ok_def)
  show ?thesis using m ok down construct sdown short sok by simp
qed

text \<open>
  The claim as the specification words it (every call returns the body or the empty
  string) fails on the client that a failed \<^verbatim>\<open>NewClient\<close> returns: \<^verbatim>\<open>Rpc\<close> with a nil
  body reads \<^verbatim>\<open>c.Transport.baseURL\<close> through the nil pointer and panics.
\<close>

theorem Rpc_on_failed_client_counterexample:
  "url_Parse env_ok '':bad'' = Inl (url_Error ''missing protocol scheme'')
   \<and> Transport (NewClient env_ok '':bad'' [] []) = None
   \<and> Rpc env_ok (NewClient env_ok '':bad'' [] []) ''add_them'' [] None = Panics
   \<and> Rpc env_ok (NewClientFast env_ok '':bad'' [] []) ''add_them'' [] None = Panics"
proof -
  have p: "url_Parse env_ok '':bad'' = Inl (url_Error ''missing protocol scheme'')"
    by (simp add: env_ok_def test_env_def test_Parse_colon)
  have b: "byteBody_of env_ok None = Inr None"
    by (simp add: byteBody_of_def)
  show ?thesis
    using p by (simp add: NewClient_parse_error NewClientFast_parse_error Rpc_nil_Transport [OF b])
qed

subsection \<open>The last-error slot\<close>

lemma Rpc_fasthttp_nil:
  "byteBody_of env rpcBody = Inr bb \<Longrightarrow> Transport c = Some t \<Longrightarrow> useFastHTTP c \<Longrightarrow>
   fastHTTPClient c = None \<Longrightarrow> Rpc env c name cnt rpcBody = Panics"
  by (auto simp: Rpc_def byteBody_of_def Let_def split: option.splits sum.splits)

lemma Ping_true_unchanged: "Ping env c = Returns (c', True, w) \<Longrightarrow> c' = c"
  by (auto simp: Ping_def Let_def split: option.splits sum.splits if_splits prod.splits)

lemma Ping_error_kept:
  "Ping env c = Returns (c', ok, w) \<Longrightarrow> ClientError c \<noteq> None \<Longrightarrow> ClientError c' \<noteq> None"
  by (auto simp: Ping_def Let_def split: option.splits sum.splits if_splits prod.splits)

lemma Rpc_outcome:
  "(\<not> Rpc_succeeds env c name cnt rpcBody \<and> Rpc env c name cnt rpcBody = Panics)
   \<or> (Rpc_succeeds env c name cnt rpcBody
        \<and> (\<exists>result w. Rpc env c name cnt rpcBody = Returns (c, result, w)))
   \<or> (\<not> Rpc_succeeds env c name cnt rpcBody
        \<and> (\<exists>err w. Rpc env c name cnt rpcBody = Returns (c\<lparr>ClientError := Some err\<rparr>, [], w)))"
proof (cases "byteBody_of env rpcBody")
  case (Inl err)
  then show ?thesis by (auto simp: Rpc_marshal_error Rpc_succeeds_def)
next
  case (Inr bb)
  note bb = this
  show ?thesis
  proof (cases "Transport c")
    case None
    then show ?thesis by (simp add: Rpc_nil_Transport [OF bb] Rpc_succeeds_def bb)
  next
    case (Some t)
    note t = this
    show ?thesis
    proof (cases "useFastHTTP c")
      case True
      note fast = this
      show ?thesis
      proof (cases "fastHTTPClient c")
        case None
        then show ?thesis by (simp add: Rpc_fasthttp_nil [OF bb t fast] Rpc_succeeds_def bb t fast)
      next
        case (Some fc)
        show ?thesis
          unfolding Rpc_fasthttp [OF bb t fast Some] Rpc_succeeds_def
          by (auto simp: bb t fast Some split: sum.splits)
      qed
    next
      case False
      note std = this
      show ?thesis
      proof (cases "NewRequest_URL env (URL_String env (Rpc_full env t name))")
        case (Inl err)
        then show ?thesis
          by (auto simp: Rpc_http_parse_error [OF bb t std] Rpc_succeeds_def bb t std)
      next
        case (Inr u)
        obtain sent answer where
          s: "session_Do env (session c) t (Rpc_http_request u cnt bb) = (sent, answer)"
          by (cases "session_Do env (session c) t (Rpc_http_request u cnt bb)")
        show ?thesis
          unfolding Rpc_http [OF bb t std Inr s] Rpc_succeeds_def
          by (auto simp: bb t std Inr s split: sum.splits option.splits)
      qed
    qed
  qed
qed

text \<open>
  Claim C9. Let the \<^verbatim>\<open>ClientError\<close> of a client hold an error. A \<^verbatim>\<open>Ping\<close> that returns
  true and an \<^verbatim>\<open>Rpc\<close> that succeeds return the client exactly as it was, so the old
  error is still there afterwards. An \<^verbatim>\<open>Rpc\<close> that does not succeed panics or returns
  the empty string with a new error in the slot. No call of either ever clears the slot.
\<close>

theorem success_keeps_ClientError:
  assumes e0: "ClientError c = Some e0"
  shows "(\<forall>c' w. Ping env c = Returns (c', True, w) \<longrightarrow> c' = c \<and> ClientError c' = Some e0)
       \<and> (Rpc_succeeds env c name cnt rpcBody \<longrightarrow>
            (\<exists>result w. Rpc env c name cnt rpcBody = Returns (c, result, w)))
       \<and> (\<forall>c' result w. Rpc_succeeds env c name cnt rpcBody \<longrightarrow>
            Rpc env c name cnt rpcBody = Returns (c', result, w) \<longrightarrow> ClientError c' = Some e0)
       \<and> (\<not> Rpc_succeeds env c name cnt rpcBody \<longrightarrow>
            Rpc env c name cnt rpcBody = Panics
          \<or> (\<exists>err w. Rpc env c name cnt rpcBody = Returns (c\<lparr>ClientError := Some err\<rparr>, [], w)))
       \<and> (\<forall>c' ok w. Ping env c = Returns (c', ok, w) \<longrightarrow> ClientError c' \<noteq> None)
       \<and> (\<forall>c' result w. Rpc env c name cnt rpcBody = Returns (c', result, w) \<longrightarrow>
            ClientError c' \<noteq> None)"
proof -
  have ping: "\<forall>c' w. Ping env c = Returns (c', True, w) \<longrightarrow> c' = c \<and> ClientError c' = Some e0"
    using e0 by (auto dest: Ping_true_unchanged)
  have ping_kept: "\<forall>c' ok w. Ping env c = Returns (c', ok, w) \<longrightarrow> ClientError c' \<noteq> None"
    using e0 Ping_error_kept [of env c] by auto
  have rpc: "Rpc_succeeds env c name cnt rpcBody \<longrightarrow>
            (\<exists>result w. Rpc env c name cnt rpcBody = Returns (c, result, w))"
    using Rpc_outcome [of env c name cnt rpcBody] by auto
  have rpc_e0: "\<forall>c' result w. Rpc_succeeds env c name cnt rpcBody \<longrightarrow>
            Rpc env c name cnt rpcBody = Returns (c', result, w) \<longrightarrow> ClientError c' = Some e0"
    using Rpc_outcome [of env c name cnt rpcBody] e0 by auto
  have rpc_fail: "\<not> Rpc_succeeds env c name cnt rpcBody \<longrightarrow>
            Rpc env c name cnt rpcBody = Panics
          \<or> (\<exists>err w. Rpc env c name cnt rpcBody = Returns (c\<lparr>ClientError := Some err\<rparr>, [], w))"
    using Rpc_outcome [of env c name cnt rpcBody] by auto
  have rpc_kept: "\<forall>c' result w. Rpc env c name cnt rpcBody = Returns (c', result, w) \<longrightarrow>
            ClientError c' \<noteq> None"
    using Rpc_outcome [of env c name cnt rpcBody] e0 by auto
  show ?thesis
    using ping rpc rpc_e0 rpc_fail ping_kept rpc_kept by (intro conjI)
qed

theorem success_keeps_ClientError_witness:
  "ClientError c_stale = Some (errors_New ''ping failed'')
   \<and> Rpc_succeeds env_ok c_stale ''add_them'' [] None
   \<and> (\<exists>result w. Rpc env_ok c_stale ''add_them'' [] None = Returns (c_stale, result, w))
   \<and> Ping env_ok c_stale =
       Returns (c_stale, True,
         [NetHTTP \<lparr>req_Method = ''GET'', req_URL = localhost,
                   req_Header = required_headers ''public'' [], req_Body = []\<rparr> 0])"
proof -
  have e: "ClientError c_stale = Some (errors_New ''ping failed'')"
    by (simp add: c_stale_def)
  have s: "Rpc_succeeds env_ok c_stale ''add_them'' [] None"
    by (simp add: Rpc_succeeds_def c_stale_def byteBody_of_def env_ok_def Rpc_url_test_env
        NewRequest_URL_rpc session_Do_test_env http_answer_ok_def)
  have p: "Ping env_ok c_stale =
       Returns (c_stale, True,
         [NetHTTP \<lparr>req_Method = ''GET'', req_URL = localhost,
                   req_Header = required_headers ''public'' [], req_Body = []\<rparr> 0])"
    unfolding c_stale_def t0_def
    by (simp add: Ping_def env_ok_def test_env_def Path_localhost test_full_localhost
        test_ResolveReference_absolute test_String_localhost
        test_Parse_localhost http_NewRequest_def NewRequest_URL_def normalize_localhost
        session_Do_def RoundTrip_def
        add_default_headers_baseline http_answer_ok_def)
  show ?thesis
    using e s p success_keeps_ClientError [OF e, of env_ok "''add_them''" "[]" None] by simp
qed

subsection \<open>The header lines of a request\<close>














subsection \<open>The Prefer header of Rpc\<close>








subsection \<open>The two branches of Rpc\<close>




end
